theory Spec2Isabelle
  imports Complex_Main "HOL-Library.Multiset"
begin

section \<open>Python values used by the pipeline\<close>

text \<open>
  Strings are byte lists (\<open>string\<close>), Python's unbounded \<open>int\<close> is \<open>int\<close>, and the
  \<open>float\<close> seconds of the segment metadata are read as exact reals. A dictionary
  with a fixed set of keys is a record; a key that the code reads with \<open>.get\<close> is an
  \<open>option\<close> field, \<open>None\<close> standing for the absent key.
\<close>

definition dict_get :: "'a option \<Rightarrow> 'a \<Rightarrow> 'a" where
  \<comment> \<open>\<open>d.get(key, default)\<close> on an optional field\<close>
  "dict_get entry dflt = (case entry of None \<Rightarrow> dflt | Some v \<Rightarrow> v)"

definition truthy_str :: "string option \<Rightarrow> bool" where
  \<comment> \<open>truth value of an optional string: \<open>None\<close> and \<open>''\<close> are false\<close>
  "truthy_str v = (case v of None \<Rightarrow> False | Some s \<Rightarrow> s \<noteq> [])"

definition or_str :: "string option \<Rightarrow> string option \<Rightarrow> string option" where
  \<comment> \<open>\<open>a or b\<close>: the first operand when it is true, the second otherwise\<close>
  "or_str a b = (if truthy_str a then a else b)"

definition digit_char :: "nat \<Rightarrow> char" where
  "digit_char d = ''0123456789'' ! d"

function str_of_nat :: "nat \<Rightarrow> string" where
  "str_of_nat n = (if n < 10 then [digit_char n] else str_of_nat (n div 10) @ [digit_char (n mod 10)])"
  by pat_completeness auto
termination
  by (relation "measure id") auto

declare str_of_nat.simps [simp del]

definition str_of_int :: "int \<Rightarrow> string" where
  \<comment> \<open>\<open>str(n)\<close> for an integer\<close>
  "str_of_int n = (if n < 0 then CHR ''-'' # str_of_nat (nat (- n)) else str_of_nat (nat n))"

definition format_02d :: "int \<Rightarrow> string" where
  \<comment> \<open>the format specification \<open>:02d\<close>: zero padding to width two, the sign counted\<close>
  "format_02d n =
     (if n < 0 then str_of_int n
      else if n < 10 then CHR ''0'' # str_of_int n
      else str_of_int n)"

definition is_space :: "char \<Rightarrow> bool" where
  \<comment> \<open>the ASCII characters that \<open>str.strip\<close> and \<open>str.split\<close> treat as whitespace\<close>
  "is_space c = (c \<in> set [CHR 0x20, CHR 0x09, CHR 0x0A, CHR 0x0B, CHR 0x0C, CHR 0x0D,
                           CHR 0x1C, CHR 0x1D, CHR 0x1E, CHR 0x1F])"

definition strip :: "string \<Rightarrow> string" where
  \<comment> \<open>\<open>s.strip()\<close>\<close>
  "strip s = rev (dropWhile is_space (rev (dropWhile is_space s)))"

fun count_words :: "bool \<Rightarrow> string \<Rightarrow> nat" where
  \<comment> \<open>\<open>len(s.split())\<close>: the number of maximal runs of non-whitespace; the flag says
      whether the scan is inside a run\<close>
  "count_words inside [] = 0"
| "count_words inside (c # cs) =
     (if is_space c then count_words False cs
      else if inside then count_words True cs
      else Suc (count_words True cs))"

fun join :: "string \<Rightarrow> string list \<Rightarrow> string" where
  \<comment> \<open>\<open>sep.join(parts)\<close>\<close>
  "join sep [] = []"
| "join sep [p] = p"
| "join sep (p # q # ps) = p @ sep @ join sep (q # ps)"

fun split_on :: "char \<Rightarrow> string \<Rightarrow> string \<Rightarrow> string list" where
  \<comment> \<open>\<open>s.split(c)\<close>, the current piece accumulated in the second argument\<close>
  "split_on c piece [] = [piece]"
| "split_on c piece (x # xs) =
     (if x = c then piece # split_on c [] xs else split_on c (piece @ [x]) xs)"

definition path_name :: "string \<Rightarrow> string" where
  \<comment> \<open>\<open>Path(p).name\<close> on a POSIX path: the last component, empty and \<open>.\<close> components
      dropped; the empty string when no component is left\<close>
  "path_name p =
     (case filter (\<lambda>c. c \<noteq> [] \<and> c \<noteq> ''.'') (split_on CHR ''/'' [] p) of
        [] \<Rightarrow> []
      | parts \<Rightarrow> last parts)"

definition floordiv60 :: "real \<Rightarrow> int" where
  \<comment> \<open>\<open>int(t // 60)\<close>\<close>
  "floordiv60 t = \<lfloor>t / 60\<rfloor>"

definition mod60 :: "real \<Rightarrow> int" where
  \<comment> \<open>\<open>int(t % 60)\<close>: the remainder has the sign of the divisor, so it lies in [0, 60)\<close>
  "mod60 t = \<lfloor>t - 60 * of_int \<lfloor>t / 60\<rfloor>\<rfloor>"

section \<open>Transcription component\<close>

subsection \<open>Segments, results and the outside world\<close>

record segment =
  seg_segment_id :: "int option"
  seg_path :: "string option"
  seg_start_time :: "real option"
  seg_end_time :: "real option"
  seg_duration :: "real option"
  seg_filename :: "string option"

record transcription =
  res_segment_id :: int
  res_text :: string
  res_start_time :: real
  res_end_time :: real
  res_duration :: real
  res_filename :: string
  res_success :: bool
  res_error :: "string option"

text \<open>An entry of the failures list is a result dictionary or, when the per-segment
  call returned \<open>None\<close>, the segment dictionary itself.\<close>

datatype failed_entry = FailedResult transcription | RawSegment segment

datatype exn =
    FileNotFoundError string
  | RuntimeError string
  | IndexError string
  | ApiError string
  | RequestError string

fun str_exn :: "exn \<Rightarrow> string" where
  \<comment> \<open>\<open>str(e)\<close>: the message the exception was raised with\<close>
  "str_exn (FileNotFoundError m) = m"
| "str_exn (RuntimeError m) = m"
| "str_exn (IndexError m) = m"
| "str_exn (ApiError m) = m"
| "str_exn (RequestError m) = m"

datatype read_result = NoSuchFile | ReadFailed string | Contents string

record client =
  base_url :: string
  api_key_of :: string

text \<open>
  The file system and the inference endpoint are outside the program. Their answers are
  given by functions of the number of attempts started so far, so that any sequence of
  answers can be represented. \<open>chat_create\<close> answers \<open>Inl m\<close> when the call raises
  an exception whose message is \<open>m\<close>, and \<open>Inr cs\<close> with the message contents of the
  returned choices otherwise.
\<close>

record tenv =
  read_file :: "nat \<Rightarrow> string \<Rightarrow> read_result"
  b64encode :: "string \<Rightarrow> string"
  chat_create :: "nat \<Rightarrow> client \<Rightarrow> string \<Rightarrow> string \<Rightarrow> string + string list"

record world =
  attempts :: nat
  network_calls :: nat
  sleeps :: "real list"

subsection \<open>Single segment\<close>

definition encode_audio_file_to_base64 :: "tenv \<Rightarrow> nat \<Rightarrow> string \<Rightarrow> exn + string" where
  "encode_audio_file_to_base64 env t file_path =
     (case read_file env t file_path of
        NoSuchFile \<Rightarrow> Inl (FileNotFoundError (''Audio file not found: '' @ file_path))
      | ReadFailed e \<Rightarrow> Inl (RuntimeError (''Error encoding audio file to base64: '' @ e))
      | Contents audio_data \<Rightarrow> Inr (b64encode env audio_data))"

definition attempt_once :: "tenv \<Rightarrow> client \<Rightarrow> string \<Rightarrow> string \<Rightarrow> world \<Rightarrow> (exn + string) \<times> world" where
  \<comment> \<open>the body of the \<open>try\<close> block: encode, call the endpoint, take the first choice\<close>
  "attempt_once env cl segment_path model w =
     (let t = attempts w; w1 = w\<lparr>attempts := t + 1\<rparr> in
      case encode_audio_file_to_base64 env t segment_path of
        Inl e \<Rightarrow> (Inl e, w1)
      | Inr encoded_audio \<Rightarrow>
          (let w2 = w1\<lparr>network_calls := network_calls w1 + 1\<rparr> in
           case chat_create env t cl model encoded_audio of
             Inl m \<Rightarrow> (Inl (ApiError m), w2)
           | Inr choices \<Rightarrow>
               (case choices of
                  [] \<Rightarrow> (Inl (IndexError ''list index out of range''), w2)
                | transcription_text # _ \<Rightarrow> (Inr transcription_text, w2))))"

definition sleep :: "real \<Rightarrow> world \<Rightarrow> world" where
  \<comment> \<open>\<open>time.sleep(seconds)\<close>, recorded in the log of sleeps\<close>
  "sleep seconds w = w\<lparr>sleeps := sleeps w @ [seconds]\<rparr>"

definition result_of :: "segment \<Rightarrow> string \<Rightarrow> bool \<Rightarrow> string option \<Rightarrow> transcription" where
  \<comment> \<open>the dictionary both \<open>return\<close> statements of the retry loop build\<close>
  "result_of seg txt ok err =
     \<lparr>res_segment_id = dict_get (seg_segment_id seg) 0,
      res_text = txt,
      res_start_time = dict_get (seg_start_time seg) 0,
      res_end_time = dict_get (seg_end_time seg) 0,
      res_duration = dict_get (seg_duration seg) 0,
      res_filename = dict_get (seg_filename seg) [],
      res_success = ok,
      res_error = err\<rparr>"

fun retry_loop ::
  "tenv \<Rightarrow> client \<Rightarrow> segment \<Rightarrow> string \<Rightarrow> int \<Rightarrow> real \<Rightarrow> int list \<Rightarrow> world
    \<Rightarrow> transcription option \<times> world" where
  \<comment> \<open>\<open>for attempt in range(max_retries)\<close>, over the attempt indices still to run\<close>
  "retry_loop env cl seg model max_retries retry_delay [] w = (None, w)"
| "retry_loop env cl seg model max_retries retry_delay (attempt # rest) w =
     (case attempt_once env cl (dict_get (seg_path seg) []) model w of
        (Inr transcription_text, w') \<Rightarrow>
          (Some (result_of seg transcription_text True None), w')
      | (Inl e, w') \<Rightarrow>
          if attempt < max_retries - 1
          then retry_loop env cl seg model max_retries retry_delay rest
                 (sleep (retry_delay * (of_int attempt + 1)) w')
          else (Some (result_of seg [] False (Some (str_exn e))), w'))"

definition transcribe_audio_segment ::
  "tenv \<Rightarrow> client \<Rightarrow> segment \<Rightarrow> string \<Rightarrow> int \<Rightarrow> real \<Rightarrow> world
    \<Rightarrow> transcription option \<times> world" where
  "transcribe_audio_segment env cl seg model max_retries retry_delay w =
     retry_loop env cl seg model max_retries retry_delay [0..max_retries - 1] w"

subsection \<open>Batch\<close>

definition or_else :: "string option \<Rightarrow> string \<Rightarrow> string" where
  \<comment> \<open>\<open>d.get(key) or fallback\<close> where the fallback is a string\<close>
  "or_else a b = (case a of None \<Rightarrow> b | Some s \<Rightarrow> if s \<noteq> [] then s else b)"

definition demo_text :: "int \<Rightarrow> string \<Rightarrow> string" where
  "demo_text segment_id filename =
     ''[DEMO TRANSCRIPT] Segment '' @ str_of_int (segment_id + 1) @ '' from file ''
       @ [CHR 0x27] @ filename @ [CHR 0x27] @ ''. ''
       @ ''This is generated placeholder text to illustrate the final ''
       @ ''experience without calling the Voxtral API.''"

definition stub_result :: "segment \<Rightarrow> transcription" where
  \<comment> \<open>the body of the loop of the demo mode\<close>
  "stub_result seg =
     (let segment_id = dict_get (seg_segment_id seg) 0;
          filename = or_else (seg_filename seg) (path_name (dict_get (seg_path seg) []));
          start_time = dict_get (seg_start_time seg) 0;
          end_time = dict_get (seg_end_time seg) (start_time + dict_get (seg_duration seg) 0);
          duration = (case seg_duration seg of
                        None \<Rightarrow> max 0 (end_time - start_time)
                      | Some d \<Rightarrow> if d \<noteq> 0 then d else max 0 (end_time - start_time))
      in \<lparr>res_segment_id = segment_id,
          res_text = demo_text segment_id filename,
          res_start_time = start_time,
          res_end_time = end_time,
          res_duration = duration,
          res_filename = filename,
          res_success = True,
          res_error = None\<rparr>)"

definition default_retry_delay :: real where
  \<comment> \<open>the default of \<open>retry_delay\<close>, which the batch does not override\<close>
  "default_retry_delay = 2"

fun live_loop ::
  "tenv \<Rightarrow> client \<Rightarrow> string \<Rightarrow> int \<Rightarrow> segment list \<Rightarrow> transcription list \<Rightarrow> failed_entry list
    \<Rightarrow> world \<Rightarrow> (transcription list \<times> failed_entry list) \<times> world" where
  \<comment> \<open>\<open>for segment in iterator\<close>, with the two lists built so far\<close>
  "live_loop env cl model max_retries [] successful failed w = ((successful, failed), w)"
| "live_loop env cl model max_retries (seg # rest) successful failed w =
     (case transcribe_audio_segment env cl seg model max_retries default_retry_delay w of
        (Some r, w') \<Rightarrow>
          if res_success r
          then live_loop env cl model max_retries rest (successful @ [r]) failed w'
          else live_loop env cl model max_retries rest successful (failed @ [FailedResult r]) w'
      | (None, w') \<Rightarrow>
          live_loop env cl model max_retries rest successful (failed @ [RawSegment seg]) w')"

definition batch_transcribe_segments ::
  "tenv \<Rightarrow> string \<Rightarrow> string \<Rightarrow> segment list \<Rightarrow> string \<Rightarrow> int \<Rightarrow> bool \<Rightarrow> world
    \<Rightarrow> (transcription list \<times> failed_entry list) \<times> world" where
  \<comment> \<open>\<open>show_progress\<close> only chooses whether the iteration is wrapped in a progress bar\<close>
  "batch_transcribe_segments env api_url api_key segments model max_retries show_progress w =
     (if api_key = [] then ((map stub_result segments, []), w)
      else live_loop env \<lparr>base_url = api_url, api_key_of = api_key\<rparr> model max_retries
             segments [] [] w)"

subsection \<open>Transcript assembly\<close>

definition timestamp :: "real \<Rightarrow> real \<Rightarrow> string" where
  "timestamp start_time end_time =
     ''['' @ format_02d (floordiv60 start_time) @ '':'' @ format_02d (mod60 start_time)
       @ '' - '' @ format_02d (floordiv60 end_time) @ '':'' @ format_02d (mod60 end_time) @ '']''"

definition segment_lines :: "transcription \<Rightarrow> string list" where
  \<comment> \<open>the two lines one result contributes\<close>
  "segment_lines tr =
     [CHR 0x0A # timestamp (res_start_time tr) (res_end_time tr), strip (res_text tr)]"

definition footer_lines :: "transcription list \<Rightarrow> string list" where
  "footer_lines sorted_transcriptions =
     [[CHR 0x0A, CHR 0x0A] @ ''=== END TRANSCRIPT ==='',
      CHR 0x0A # ''Total segments: '' @ str_of_int (int (length sorted_transcriptions))]
     @ (if sorted_transcriptions \<noteq> []
        then (let total_duration = res_end_time (last sorted_transcriptions)
              in [''Total duration: '' @ str_of_int (floordiv60 total_duration) @ '':''
                    @ format_02d (mod60 total_duration)])
        else [])"

definition create_complete_transcript :: "transcription list \<Rightarrow> string" where
  \<comment> \<open>the returned document; the optional write to \<open>output_path\<close> stores the same string\<close>
  "create_complete_transcript transcriptions =
     (let sorted_transcriptions = sort_key res_segment_id transcriptions;
          transcript_lines =
            [''=== EARNINGS CALL TRANSCRIPT ==='' @ [CHR 0x0A]]
            @ concat (map segment_lines sorted_transcriptions)
            @ footer_lines sorted_transcriptions
      in join [CHR 0x0A] transcript_lines)"

record metadata =
  source_audio :: string
  sample_rate :: int
  total_segments :: nat
  total_duration :: real
  total_words :: nat
  avg_segment_duration :: real
  segments :: "transcription list"

definition create_transcript_metadata :: "transcription list \<Rightarrow> string \<Rightarrow> int \<Rightarrow> metadata" where
  "create_transcript_metadata transcriptions audio_file rate =
     (let n = length transcriptions;
          duration = (if transcriptions \<noteq> [] then res_end_time (last transcriptions) else 0);
          words = sum_list (map (\<lambda>t. count_words False (res_text t)) transcriptions)
      in \<lparr>source_audio = audio_file,
          sample_rate = rate,
          total_segments = n,
          total_duration = duration,
          total_words = words,
          avg_segment_duration = (if n > 0 then duration / real n else 0),
          segments = transcriptions\<rparr>)"

definition failed_id :: "failed_entry \<Rightarrow> int" where
  \<comment> \<open>the segment id an entry of the failures list stands for\<close>
  "failed_id f = (case f of FailedResult r \<Rightarrow> res_segment_id r
                          | RawSegment seg \<Rightarrow> dict_get (seg_segment_id seg) 0)"

definition failed_error :: "failed_entry \<Rightarrow> string option" where
  \<comment> \<open>the error string of an entry of the failures list; a raw segment has none\<close>
  "failed_error f = (case f of FailedResult r \<Rightarrow> res_error r | RawSegment seg \<Rightarrow> None)"

subsection \<open>Vocabulary for the statements\<close>

text \<open>The outcome of the attempt that is started when \<open>t\<close> attempts have been started
  before it: what the \<open>try\<close> block returns or raises then.\<close>

definition attempt_outcome :: "tenv \<Rightarrow> client \<Rightarrow> string \<Rightarrow> string \<Rightarrow> nat \<Rightarrow> exn + string" where
  "attempt_outcome env cl segment_path model t =
     fst (attempt_once env cl segment_path model \<lparr>attempts = t, network_calls = 0, sleeps = []\<rparr>)"


text \<open>A concrete batch: three segments, the audio file of the second one missing, and an
  endpoint that answers every call. \<open>seg0\<close> is a segment numbered from zero that has no
  \<open>filename\<close> entry.\<close>

definition env3 :: tenv where
  "env3 = \<lparr>read_file = (\<lambda>t p. if p = ''seg2.wav'' then NoSuchFile else Contents ''RIFF''),
           b64encode = (\<lambda>d. d),
           chat_create = (\<lambda>t cl model audio. Inr [''hello''])\<rparr>"

text \<open>An endpoint that raises an exception without a message for the audio of the second
  segment, whose file can be read here.\<close>

definition env_silent :: tenv where
  "env_silent =
     \<lparr>read_file = (\<lambda>t p. if p = ''seg2.wav'' then Contents ''RIFF2'' else Contents ''RIFF''),
      b64encode = (\<lambda>d. d),
      chat_create = (\<lambda>t cl model audio. if audio = ''RIFF2'' then Inl [] else Inr [''hello''])\<rparr>"

definition cl3 :: client where
  "cl3 = \<lparr>base_url = ''http://voxtral'', api_key_of = ''key''\<rparr>"

definition w0 :: world where
  "w0 = \<lparr>attempts = 0, network_calls = 0, sleeps = []\<rparr>"

definition seg0 :: segment where
  "seg0 = \<lparr>seg_segment_id = Some 0, seg_path = Some ''/data/segments/segment_000.wav'',
           seg_start_time = Some 0, seg_end_time = Some 30, seg_duration = Some 30,
           seg_filename = None\<rparr>"

definition seg1 :: segment where
  "seg1 = \<lparr>seg_segment_id = Some 1, seg_path = Some ''seg1.wav'', seg_start_time = Some 0,
           seg_end_time = Some 30, seg_duration = Some 30, seg_filename = Some ''seg1.wav''\<rparr>"

definition seg2 :: segment where
  "seg2 = \<lparr>seg_segment_id = Some 2, seg_path = Some ''seg2.wav'', seg_start_time = Some 30,
           seg_end_time = Some 60, seg_duration = Some 30, seg_filename = Some ''seg2.wav''\<rparr>"

definition seg3 :: segment where
  "seg3 = \<lparr>seg_segment_id = Some 3, seg_path = Some ''seg3.wav'', seg_start_time = Some 60,
           seg_end_time = Some 90, seg_duration = Some 30, seg_filename = Some ''seg3.wav''\<rparr>"

text \<open>Two results, given out of order in the examples below.\<close>

definition tr1 :: transcription where
  "tr1 = \<lparr>res_segment_id = 1, res_text = '' Good morning. '', res_start_time = 0,
          res_end_time = 75, res_duration = 75, res_filename = ''seg1.wav'',
          res_success = True, res_error = None\<rparr>"

definition tr2 :: transcription where
  "tr2 = \<lparr>res_segment_id = 2, res_text = ''Revenue grew.'', res_start_time = 75,
          res_end_time = 140, res_duration = 65, res_filename = ''seg2.wav'',
          res_success = True, res_error = None\<rparr>"

section \<open>Event handler\<close>

text \<open>
  The handler keeps three module-level variables: the HTTP session and the two cached
  ids. They are the fields of \<open>app_state\<close>, passed through every function that reads or
  writes them, together with the list of the requests sent to the orchestration API so
  far. The API itself is outside the program: \<open>transport\<close> gives its answer to the
  request that is sent when \<open>n\<close> requests have been sent before, \<open>Inl m\<close> when sending
  raises an exception with message \<open>m\<close>. A leading underscore of a Python name is dropped.
\<close>

subsection \<open>String helpers\<close>

definition startswith :: "string \<Rightarrow> string \<Rightarrow> bool" where
  "startswith s p = (take (length p) s = p)"

definition endswith :: "string \<Rightarrow> string \<Rightarrow> bool" where
  "endswith s suffix = (length suffix \<le> length s \<and> drop (length s - length suffix) s = suffix)"

definition lower_char :: "char \<Rightarrow> char" where
  "lower_char c =
     (case map_of (zip ''ABCDEFGHIJKLMNOPQRSTUVWXYZ'' ''abcdefghijklmnopqrstuvwxyz'') c of
        None \<Rightarrow> c | Some l \<Rightarrow> l)"

definition upper_char :: "char \<Rightarrow> char" where
  "upper_char c =
     (case map_of (zip ''abcdefghijklmnopqrstuvwxyz'' ''ABCDEFGHIJKLMNOPQRSTUVWXYZ'') c of
        None \<Rightarrow> c | Some u \<Rightarrow> u)"

definition lower :: "string \<Rightarrow> string" where
  \<comment> \<open>\<open>s.lower()\<close> on ASCII letters\<close>
  "lower s = map lower_char s"

definition upper :: "string \<Rightarrow> string" where
  \<comment> \<open>\<open>s.upper()\<close> on ASCII letters\<close>
  "upper s = map upper_char s"

definition hex_digit :: "char \<Rightarrow> nat option" where
  "hex_digit c =
     map_of (zip ''0123456789abcdefABCDEF''
               [0, 1, 2, 3, 4, 5, 6, 7, 8, 9, 10, 11, 12, 13, 14, 15, 10, 11, 12, 13, 14, 15]) c"

fun unquote :: "string \<Rightarrow> string" where
  \<comment> \<open>\<open>urllib.parse.unquote\<close> on the bytes of the key: \<open>%XX\<close> with two hexadecimal digits
      becomes the byte, any other \<open>%\<close> stays\<close>
  "unquote [] = []"
| "unquote (c # cs) =
     (if c = CHR ''%'' then
        (case cs of
           a # b # rest \<Rightarrow>
             (case (hex_digit a, hex_digit b) of
                (Some h, Some l) \<Rightarrow> char_of (16 * h + l) # unquote rest
              | _ \<Rightarrow> c # unquote cs)
         | _ \<Rightarrow> c # unquote cs)
      else c # unquote cs)"

definition replace_char :: "char \<Rightarrow> char \<Rightarrow> string \<Rightarrow> string" where
  \<comment> \<open>\<open>s.replace(old, new)\<close> for single characters\<close>
  "replace_char old new s = map (\<lambda>c. if c = old then new else c) s"

definition lstrip_slash :: "string \<Rightarrow> string" where
  "lstrip_slash s = dropWhile (\<lambda>c. c = CHR ''/'') s"

definition rstrip_slash :: "string \<Rightarrow> string" where
  "rstrip_slash s = rev (dropWhile (\<lambda>c. c = CHR ''/'') (rev s))"

subsection \<open>Configuration, requests and responses\<close>

record config =
  KFP_ENDPOINT :: string
  KFP_NAMESPACE :: string
  PIPELINE_NAME :: string
  EXPERIMENT_NAME :: string
  KFP_VERIFY_SSL :: bool
  KFP_SSL_CA_CERT :: "string option"
  KFP_REQUEST_TIMEOUT :: real
  MINIO_ENDPOINT :: string
  MINIO_ACCESS_KEY :: string
  MINIO_SECRET_KEY :: string
  VOXTRAL_API_URL :: string
  VOXTRAL_API_KEY :: string
  VOXTRAL_MODEL :: string
  MILVUS_HOST :: string
  MILVUS_PORT :: string
  COLLECTION_NAME :: string

datatype verify_setting = VerifyDefault | VerifyOff | VerifyCA string

record kfp_session_data =
  session_verify :: verify_setting
  session_headers :: "(string \<times> string) list"

datatype request_body =
    NoBody
  | ExperimentBody string string string
  | RunBody string "string option" "(string \<times> string) list"

record http_request =
  req_method :: string
  req_url :: string
  req_timeout :: real
  req_params :: "(string \<times> string option) list"
  req_json :: request_body
  req_session :: kfp_session_data

record experiment_item =
  item_experiment_id :: "string option"

record pipeline_item =
  p_display_name :: "string option"
  p_name :: "string option"
  p_pipeline_id :: "string option"
  p_pipelineVersionId :: "string option"

text \<open>The JSON object of a response, with the keys the handler reads; \<open>j_other_keys\<close> says
  whether the object has any other key, which decides whether the object is empty.\<close>

record kfp_json =
  j_experiments :: "experiment_item list option"
  j_experiment_id :: "string option"
  j_pipelines :: "pipeline_item list option"
  j_run_id :: "string option"
  j_other_keys :: bool

definition empty_json :: kfp_json where
  "empty_json = \<lparr>j_experiments = None, j_experiment_id = None, j_pipelines = None,
                  j_run_id = None, j_other_keys = False\<rparr>"

record http_response =
  status_code :: nat
  response_text :: string
  response_json :: "kfp_json option"

record kenv =
  transport :: "nat \<Rightarrow> http_request \<Rightarrow> string + http_response"
  json_dumps_str :: "string \<Rightarrow> string"
  utcnow_isoformat :: "nat \<Rightarrow> string"
  now_isoformat :: "nat \<Rightarrow> string"
  now_stamp :: "nat \<Rightarrow> string"

record app_state =
  kfp_session :: "kfp_session_data option"
  cached_pipeline_id :: "string option"
  cached_experiment_id :: "string option"
  requests :: "http_request list"

subsection \<open>Resource resolution\<close>

definition get_kfp_session :: "config \<Rightarrow> app_state \<Rightarrow> kfp_session_data \<times> app_state" where
  "get_kfp_session cfg st =
     (case kfp_session st of
        Some session \<Rightarrow> (session, st)
      | None \<Rightarrow>
          (let session =
                 \<lparr>session_verify =
                    (if \<not> KFP_VERIFY_SSL cfg then VerifyOff
                     else (case KFP_SSL_CA_CERT cfg of
                             None \<Rightarrow> VerifyDefault
                           | Some ca \<Rightarrow> if ca \<noteq> [] then VerifyCA ca else VerifyDefault)),
                  session_headers = [(''Content-Type'', ''application/json'')]\<rparr>
           in (session, st\<lparr>kfp_session := Some session\<rparr>)))"

definition request_url :: "config \<Rightarrow> string \<Rightarrow> string" where
  \<comment> \<open>\<open>urljoin(KFP_ENDPOINT.rstrip('/') + '/', path.lstrip('/'))\<close>: for a base that ends in
      a slash and the relative paths of the handler, the path appended to the base\<close>
  "request_url cfg path = rstrip_slash (KFP_ENDPOINT cfg) @ ''/'' @ lstrip_slash path"

definition kfp_request ::
  "kenv \<Rightarrow> config \<Rightarrow> string \<Rightarrow> string \<Rightarrow> (string \<times> string option) list \<Rightarrow> request_body
    \<Rightarrow> real option \<Rightarrow> app_state \<Rightarrow> (exn + kfp_json) \<times> app_state" where
  "kfp_request env cfg method path params body timeout_kw st =
     (let url = request_url cfg path;
          timeout = dict_get timeout_kw (KFP_REQUEST_TIMEOUT cfg);
          (session, st1) = get_kfp_session cfg st;
          req = \<lparr>req_method = upper method, req_url = url, req_timeout = timeout,
                 req_params = params, req_json = body, req_session = session\<rparr>;
          st2 = st1\<lparr>requests := requests st1 @ [req]\<rparr>
      in case transport env (length (requests st1)) req of
           Inl m \<Rightarrow> (Inl (RequestError m), st2)
         | Inr response \<Rightarrow>
             if status_code response \<ge> 400
             then (Inl (RuntimeError (''KFP API '' @ upper method @ '' '' @ url @ '' failed: ''
                          @ str_of_int (int (status_code response)) @ '' - ''
                          @ response_text response)), st2)
             else if response_text response = [] then (Inr empty_json, st2)
             else (case response_json response of
                     None \<Rightarrow> (Inr empty_json, st2)
                   | Some j \<Rightarrow> (Inr j, st2)))"

definition build_filter :: "kenv \<Rightarrow> string \<Rightarrow> string" where
  \<comment> \<open>\<open>json.dumps\<close> of the one-predicate filter; \<open>json_dumps_str\<close> renders the name as a
      JSON string\<close>
  "build_filter env display_name =
     [CHR ''{'', CHR 0x22] @ ''predicates'' @ [CHR 0x22] @ '': [{'' @ [CHR 0x22] @ ''key''
       @ [CHR 0x22] @ '': '' @ [CHR 0x22] @ ''display_name'' @ [CHR 0x22] @ '', ''
       @ [CHR 0x22] @ ''operation'' @ [CHR 0x22] @ '': 1, '' @ [CHR 0x22] @ ''stringValue''
       @ [CHR 0x22] @ '': '' @ json_dumps_str env display_name @ ''}]}''"

definition experiment_params :: "kenv \<Rightarrow> config \<Rightarrow> (string \<times> string option) list" where
  "experiment_params env cfg =
     [(''namespace'', Some (KFP_NAMESPACE cfg)),
      (''filter'', Some (build_filter env (EXPERIMENT_NAME cfg))),
      (''page_size'', Some ''1'')]"

definition get_or_create_experiment_id ::
  "kenv \<Rightarrow> config \<Rightarrow> app_state \<Rightarrow> (exn + string option) \<times> app_state" where
  "get_or_create_experiment_id env cfg st =
     (if truthy_str (cached_experiment_id st) then (Inr (cached_experiment_id st), st)
      else
        (case kfp_request env cfg ''GET'' ''/apis/v2beta1/experiments''
                (experiment_params env cfg) NoBody None st of
           (Inl e, st1) \<Rightarrow> (Inl e, st1)
         | (Inr experiments, st1) \<Rightarrow>
             (case dict_get (j_experiments experiments) [] of
                item # _ \<Rightarrow>
                  (Inr (item_experiment_id item),
                   st1\<lparr>cached_experiment_id := item_experiment_id item\<rparr>)
              | [] \<Rightarrow>
                  (let payload = ExperimentBody (EXPERIMENT_NAME cfg) (KFP_NAMESPACE cfg)
                         (''Auto-created by FinSight handler at ''
                            @ utcnow_isoformat env (length (requests st1)) @ ''Z'')
                   in case kfp_request env cfg ''POST'' ''/apis/v2beta1/experiments'' []
                             payload None st1 of
                        (Inl e, st2) \<Rightarrow> (Inl e, st2)
                      | (Inr created, st2) \<Rightarrow>
                          (let experiment_id = j_experiment_id created
                           in if \<not> truthy_str experiment_id
                              then (Inl (RuntimeError
                                      ''Failed to create or retrieve experiment ID from KFP''), st2)
                              else (Inr experiment_id,
                                    st2\<lparr>cached_experiment_id := experiment_id\<rparr>))))))"

fun find_pipeline :: "string \<Rightarrow> pipeline_item list \<Rightarrow> string option" where
  \<comment> \<open>the \<open>for\<close> loop over the listed pipelines: the id it returns with, or \<open>None\<close> when the
      loop runs out\<close>
  "find_pipeline pname [] = None"
| "find_pipeline pname (pipeline # rest) =
     (let display_name = or_str (p_display_name pipeline) (p_name pipeline)
      in if display_name = Some pname
         then (let pipeline_id = or_str (p_pipeline_id pipeline) (p_pipelineVersionId pipeline)
               in if truthy_str pipeline_id then pipeline_id else find_pipeline pname rest)
         else find_pipeline pname rest)"

definition get_pipeline_id ::
  "kenv \<Rightarrow> config \<Rightarrow> app_state \<Rightarrow> (exn + string option) \<times> app_state" where
  "get_pipeline_id env cfg st =
     (if truthy_str (cached_pipeline_id st) then (Inr (cached_pipeline_id st), st)
      else
        (case kfp_request env cfg ''GET'' ''/apis/v2beta1/pipelines''
                [(''namespace'', Some (KFP_NAMESPACE cfg)), (''page_size'', Some ''200'')]
                NoBody None st of
           (Inl e, st1) \<Rightarrow> (Inl e, st1)
         | (Inr response, st1) \<Rightarrow>
             (case find_pipeline (PIPELINE_NAME cfg) (dict_get (j_pipelines response) []) of
                Some pipeline_id \<Rightarrow>
                  (Inr (Some pipeline_id), st1\<lparr>cached_pipeline_id := Some pipeline_id\<rparr>)
              | None \<Rightarrow>
                  (Inl (RuntimeError (''Pipeline '' @ [CHR 0x27] @ PIPELINE_NAME cfg @ [CHR 0x27]
                          @ '' not found in namespace '' @ [CHR 0x27] @ KFP_NAMESPACE cfg
                          @ [CHR 0x27])), st1))))"

subsection \<open>Triggering a run\<close>

definition trigger_pipeline ::
  "kenv \<Rightarrow> config \<Rightarrow> string \<Rightarrow> string \<Rightarrow> string \<Rightarrow> app_state \<Rightarrow> (exn + kfp_json) \<times> app_state" where
  "trigger_pipeline env cfg bucket_name object_key event_time st =
     (case get_or_create_experiment_id env cfg st of
        (Inl e, st1) \<Rightarrow> (Inl e, st1)
      | (Inr experiment_id, st1) \<Rightarrow>
          (case get_pipeline_id env cfg st1 of
             (Inl e, st2) \<Rightarrow> (Inl e, st2)
           | (Inr pipeline_id, st2) \<Rightarrow>
               (let pipeline_params =
                      [(''s3_bucket'', bucket_name),
                       (''s3_key'', object_key),
                       (''s3_endpoint_url'', MINIO_ENDPOINT cfg),
                       (''s3_access_key'', MINIO_ACCESS_KEY cfg),
                       (''s3_secret_key'', MINIO_SECRET_KEY cfg),
                       (''voxtral_api_url'', VOXTRAL_API_URL cfg),
                       (''voxtral_api_key'', VOXTRAL_API_KEY cfg),
                       (''voxtral_model'', VOXTRAL_MODEL cfg),
                       (''milvus_host'', MILVUS_HOST cfg),
                       (''milvus_port'', MILVUS_PORT cfg),
                       (''collection_name'', COLLECTION_NAME cfg)];
                    run_name = ''audio-'' @ replace_char CHR ''/'' CHR ''-'' object_key @ ''-''
                                 @ now_stamp env (length (requests st2));
                    payload = RunBody run_name pipeline_id pipeline_params
                in kfp_request env cfg ''POST'' ''/apis/v2beta1/runs''
                     [(''experiment_id'', experiment_id)] payload
                     (Some (max (KFP_REQUEST_TIMEOUT cfg) 90)) st2)))"

subsection \<open>The event handler\<close>

record bucket_obj =
  b_name :: "string option"

record object_obj =
  o_key :: "string option"

record s3_info =
  s_bucket :: "bucket_obj option"
  s_object :: "object_obj option"

record s3_record =
  r_s3 :: "s3_info option"
  r_eventTime :: "string option"

record event_data =
  d_Records :: "s3_record list option"
  d_bucket :: "bucket_obj option"
  d_object :: "object_obj option"
  d_eventTime :: "string option"
  d_other_keys :: bool

record cloud_event =
  ce_type :: string
  ce_source :: string
  ce_subject :: "string option"
  ce_data :: "event_data option"

datatype reply_body =
    Ignored string
  | Success string "string option" string string
  | Failed string

fun status_of :: "reply_body \<Rightarrow> string" where
  \<comment> \<open>the \<open>status\<close> entry of the reply\<close>
  "status_of (Ignored reason) = ''ignored''"
| "status_of (Success message run_id bucket obj) = ''success''"
| "status_of (Failed message) = ''error''"

definition is_empty_data :: "event_data \<Rightarrow> bool" where
  "is_empty_data d =
     (d_Records d = None \<and> d_bucket d = None \<and> d_object d = None \<and> d_eventTime d = None
      \<and> \<not> d_other_keys d)"

definition is_empty_json :: "kfp_json \<Rightarrow> bool" where
  "is_empty_json j =
     (j_experiments j = None \<and> j_experiment_id j = None \<and> j_pipelines j = None
      \<and> j_run_id j = None \<and> \<not> j_other_keys j)"

definition bucket_name_of :: "bucket_obj option \<Rightarrow> string option" where
  \<comment> \<open>\<open>d.get('bucket', {}).get('name')\<close>\<close>
  "bucket_name_of b = (case b of None \<Rightarrow> None | Some x \<Rightarrow> b_name x)"

definition object_key_of :: "object_obj option \<Rightarrow> string option" where
  \<comment> \<open>\<open>d.get('object', {}).get('key')\<close>\<close>
  "object_key_of ob = (case ob of None \<Rightarrow> None | Some x \<Rightarrow> o_key x)"

definition extract_event :: "string \<Rightarrow> event_data \<Rightarrow> string option \<times> string option \<times> string" where
  \<comment> \<open>bucket name, object key and event time of the payload, from the first record when
      there are records and from the top level otherwise; the first argument is the
      current time, the default of the event time\<close>
  "extract_event now event_data =
     (case dict_get (d_Records event_data) [] of
        [] \<Rightarrow>
          (bucket_name_of (d_bucket event_data), object_key_of (d_object event_data),
           dict_get (d_eventTime event_data) now)
      | record # _ \<Rightarrow>
          (let s3 = r_s3 record
           in (bucket_name_of (case s3 of None \<Rightarrow> None | Some i \<Rightarrow> s_bucket i),
               object_key_of (case s3 of None \<Rightarrow> None | Some i \<Rightarrow> s_object i),
               dict_get (r_eventTime record) now)))"

definition audio_extensions :: "string list" where
  "audio_extensions = [''.mp3'', ''.wav'', ''.m4a'', ''.flac'', ''.ogg'']"

definition handle_event ::
  "kenv \<Rightarrow> config \<Rightarrow> string + cloud_event \<Rightarrow> app_state \<Rightarrow> (reply_body \<times> nat) \<times> app_state" where
  \<comment> \<open>the argument is what \<open>from_http\<close> gives for the request: the event, or \<open>Inl m\<close> when
      parsing raises\<close>
  "handle_event env cfg parsed st =
     (case parsed of
        Inl m \<Rightarrow> ((Failed m, 500), st)
      | Inr event \<Rightarrow>
          (case ce_data event of
             None \<Rightarrow> ((Ignored ''no data'', 200), st)
           | Some event_data \<Rightarrow>
               if is_empty_data event_data then ((Ignored ''no data'', 200), st)
               else
                 (case extract_event (now_isoformat env (length (requests st))) event_data of
                    (bucket_opt, key_opt, event_time) \<Rightarrow>
                      if \<not> truthy_str bucket_opt \<or> \<not> truthy_str key_opt
                      then ((Ignored ''invalid event structure'', 200), st)
                      else
                        (let bucket_name = dict_get bucket_opt [];
                             object_key = unquote (dict_get key_opt [])
                         in if bucket_name \<noteq> ''audio-inbox''
                            then ((Ignored (''bucket '' @ bucket_name @ '' not monitored''), 200), st)
                            else if startswith (lower object_key) ''transcripts/''
                            then ((Ignored ''transcript artifacts are not ingested'', 200), st)
                            else if \<not> (\<exists>ext \<in> set audio_extensions. endswith (lower object_key) ext)
                            then ((Ignored ''not an audio file'', 200), st)
                            else
                              (case trigger_pipeline env cfg bucket_name object_key event_time st of
                                 (Inl e, st') \<Rightarrow> ((Failed (str_exn e), 500), st')
                               | (Inr run, st') \<Rightarrow>
                                   if \<not> is_empty_json run
                                   then ((Success ''Pipeline triggered'' (j_run_id run)
                                            bucket_name object_key, 200), st')
                                   else ((Failed ''Failed to trigger pipeline'', 500), st'))))))"

subsection \<open>Vocabulary for the statements about the handler\<close>

text \<open>The default configuration, the state of a fresh process, an orchestration API that
  knows the experiment and the pipeline, one whose listed experiment carries no id, and a
  notification for an object under the output prefix of the inbox bucket.\<close>

definition cfg0 :: config where
  "cfg0 = \<lparr>KFP_ENDPOINT = ''https://ml-pipeline.finsight-agent.svc.cluster.local:8888'',
            KFP_NAMESPACE = ''finsight-agent'',
            PIPELINE_NAME = ''audio-transcription-pipeline'',
            EXPERIMENT_NAME = ''Audio Transcription Runs'',
            KFP_VERIFY_SSL = False,
            KFP_SSL_CA_CERT = None,
            KFP_REQUEST_TIMEOUT = 60,
            MINIO_ENDPOINT = ''http://minio.minio.svc.cluster.local:9000'',
            MINIO_ACCESS_KEY = ''minioadmin'',
            MINIO_SECRET_KEY = ''minioadmin123'',
            VOXTRAL_API_URL = ''https://api.scaleway.ai/v1'',
            VOXTRAL_API_KEY = [],
            VOXTRAL_MODEL = ''voxtral-small-24b-2507'',
            MILVUS_HOST = ''milvus.finsight-agent.svc.cluster.local'',
            MILVUS_PORT = ''19530'',
            COLLECTION_NAME = ''earnings_call_transcripts''\<rparr>"

definition st0 :: app_state where
  "st0 = \<lparr>kfp_session = None, cached_pipeline_id = None, cached_experiment_id = None,
           requests = []\<rparr>"

definition json_found :: kfp_json where
  "json_found =
     \<lparr>j_experiments = Some [\<lparr>item_experiment_id = Some ''exp-1''\<rparr>],
      j_experiment_id = None,
      j_pipelines = Some [\<lparr>p_display_name = Some ''audio-transcription-pipeline'', p_name = None,
                            p_pipeline_id = Some ''pipe-1'', p_pipelineVersionId = None\<rparr>],
      j_run_id = Some ''run-1'',
      j_other_keys = False\<rparr>"

definition env_found :: kenv where
  "env_found =
     \<lparr>transport = (\<lambda>n req. Inr \<lparr>status_code = 200, response_text = ''{...}'',
                                   response_json = Some json_found\<rparr>),
      json_dumps_str = (\<lambda>s. [CHR 0x22] @ s @ [CHR 0x22]),
      utcnow_isoformat = (\<lambda>n. ''2024-01-01T00:00:00''),
      now_isoformat = (\<lambda>n. ''2024-01-01T00:00:00''),
      now_stamp = (\<lambda>n. ''20240101-000000'')\<rparr>"

definition env_no_id :: kenv where
  "env_no_id =
     env_found\<lparr>transport := (\<lambda>n req. Inr \<lparr>status_code = 200, response_text = ''{...}'',
          response_json = Some (json_found\<lparr>j_experiments := Some [\<lparr>item_experiment_id = None\<rparr>]\<rparr>)\<rparr>)\<rparr>"

definition event7 :: cloud_event where
  "event7 =
     \<lparr>ce_type = ''s3:ObjectCreated:Put'', ce_source = ''minio'', ce_subject = None,
      ce_data = Some \<lparr>d_Records = Some [\<lparr>r_s3 = Some \<lparr>s_bucket = Some \<lparr>b_name = Some ''audio-inbox''\<rparr>,
                                                    s_object = Some \<lparr>o_key = Some ''Transcripts/call%20one.MP3''\<rparr>\<rparr>,
                                       r_eventTime = Some ''2024-01-01T00:00:00Z''\<rparr>],
                     d_bucket = None, d_object = None, d_eventTime = None,
                     d_other_keys = False\<rparr>\<rparr>"

section \<open>Properties of the transcription component\<close>

lemma retry_loop_id:
  "retry_loop env cl seg model max_retries retry_delay idxs w = (Some r, w')
    \<Longrightarrow> res_segment_id r = dict_get (seg_segment_id seg) 0"
  by (induction idxs arbitrary: w)
     (auto simp: result_of_def split: prod.splits sum.splits if_splits)

lemma live_loop_partition:
  "live_loop env cl model max_retries segs successful failed w = ((s', f'), w')
    \<Longrightarrow> length s' + length f' = length successful + length failed + length segs
      \<and> mset (map res_segment_id s') + mset (map failed_id f')
          = mset (map res_segment_id successful) + mset (map failed_id failed)
            + mset (map (\<lambda>seg. dict_get (seg_segment_id seg) 0) segs)"
proof (induction segs arbitrary: successful failed w)
  case Nil
  then show ?case by simp
next
  case (Cons seg rest)
  obtain res w1 where step:
    "transcribe_audio_segment env cl seg model max_retries default_retry_delay w = (res, w1)"
    by (cases "transcribe_audio_segment env cl seg model max_retries default_retry_delay w")
  show ?case
  proof (cases res)
    case None
    with Cons.prems step
    have "live_loop env cl model max_retries rest successful (failed @ [RawSegment seg]) w1
            = ((s', f'), w')"
      by simp
    from Cons.IH [OF this] show ?thesis
      by (simp add: failed_id_def)
  next
    case (Some r)
    with step have rid: "res_segment_id r = dict_get (seg_segment_id seg) 0"
      by (simp add: transcribe_audio_segment_def retry_loop_id)
    show ?thesis
    proof (cases "res_success r")
      case True
      with Some Cons.prems step
      have "live_loop env cl model max_retries rest (successful @ [r]) failed w1 = ((s', f'), w')"
        by simp
      from Cons.IH [OF this] rid show ?thesis
        by simp
    next
      case False
      with Some Cons.prems step
      have "live_loop env cl model max_retries rest successful (failed @ [FailedResult r]) w1
              = ((s', f'), w')"
        by simp
      from Cons.IH [OF this] rid show ?thesis
        by (simp add: failed_id_def)
    qed
  qed
qed

lemma stub_result_id: "res_segment_id (stub_result seg) = dict_get (seg_segment_id seg) 0"
  by (simp add: stub_result_def Let_def)

text \<open>
  C1. In stub mode and in live mode alike, the two lists the batch returns partition the
  input: their lengths add up to the number of input segments, and the segment ids of
  the successes together with those of the failures are, counted with multiplicity, the
  segment ids of the input.
\<close>

theorem batch_partitions_input:
  "(case batch_transcribe_segments env api_url api_key segs model max_retries show_progress w of
      ((successes, failures), w') \<Rightarrow>
        length successes + length failures = length segs
        \<and> mset (map res_segment_id successes) + mset (map failed_id failures)
            = mset (map (\<lambda>seg. dict_get (seg_segment_id seg) 0) segs))"
proof (cases "api_key = []")
  case True
  then show ?thesis
    by (simp add: batch_transcribe_segments_def multiset.map_comp comp_def stub_result_id)
next
  case False
  obtain s' f' w' where run:
    "live_loop env \<lparr>base_url = api_url, api_key_of = api_key\<rparr> model max_retries segs [] [] w
       = ((s', f'), w')"
    by (cases "live_loop env \<lparr>base_url = api_url, api_key_of = api_key\<rparr> model max_retries segs [] [] w")
       auto
  from live_loop_partition [OF run] False run show ?thesis
    by (simp add: batch_transcribe_segments_def)
qed

lemma attempt_once_fst:
  "fst (attempt_once env cl p model w) = attempt_outcome env cl p model (attempts w)"
  by (simp add: attempt_once_def attempt_outcome_def Let_def split: sum.splits list.splits)

lemma attempt_once_attempts:
  "attempts (snd (attempt_once env cl p model w)) = attempts w + 1"
  by (simp add: attempt_once_def Let_def split: sum.splits list.splits)

lemma attempt_once_sleeps:
  "sleeps (snd (attempt_once env cl p model w)) = sleeps w"
  by (simp add: attempt_once_def Let_def split: sum.splits list.splits)

lemma retry_loop_run:
  assumes "0 \<le> a" and "a + int k \<le> max_retries" and "k = 0 \<longrightarrow> a < max_retries"
    and "\<forall>i<k. attempt_outcome env cl (dict_get (seg_path seg) []) model (attempts w + i) = Inl (err i)"
    and "a + int k < max_retries \<longrightarrow>
           attempt_outcome env cl (dict_get (seg_path seg) []) model (attempts w + k) = Inr tx"
  shows "case retry_loop env cl seg model max_retries d [a..max_retries - 1] w of (res, w') \<Rightarrow>
           res = Some (if a + int k < max_retries then result_of seg tx True None
                       else result_of seg [] False (Some (str_exn (err (k - 1)))))
         \<and> attempts w' = attempts w + k + (if a + int k < max_retries then 1 else 0)
         \<and> sleeps w' = sleeps w @ map (\<lambda>i. d * (of_int a + real i + 1))
                                     [0..<(if a + int k < max_retries then k else k - 1)]"
  using assms
proof (induction k arbitrary: a w err)
  case 0
  then have lt: "a < max_retries" by simp
  then have l: "[a..max_retries - 1] = a # [a + 1..max_retries - 1]"
    by (simp add: upto_rec1)
  obtain o1 w1 where st: "attempt_once env cl (dict_get (seg_path seg) []) model w = (o1, w1)"
    by (cases "attempt_once env cl (dict_get (seg_path seg) []) model w")
  from st have o1: "o1 = attempt_outcome env cl (dict_get (seg_path seg) []) model (attempts w)"
    using attempt_once_fst [of env cl "dict_get (seg_path seg) []" model w] by simp
  from st have a1: "attempts w1 = attempts w + 1"
    using attempt_once_attempts [of env cl "dict_get (seg_path seg) []" model w] by simp
  from st have s1: "sleeps w1 = sleeps w"
    using attempt_once_sleeps [of env cl "dict_get (seg_path seg) []" model w] by simp
  from 0 lt o1 have "o1 = Inr tx" by simp
  with st l lt a1 s1 show ?case by simp
next
  case (Suc k)
  then have lt: "a < max_retries" by simp
  then have l: "[a..max_retries - 1] = a # [a + 1..max_retries - 1]"
    by (simp add: upto_rec1)
  obtain o1 w1 where st: "attempt_once env cl (dict_get (seg_path seg) []) model w = (o1, w1)"
    by (cases "attempt_once env cl (dict_get (seg_path seg) []) model w")
  from st have o1: "o1 = attempt_outcome env cl (dict_get (seg_path seg) []) model (attempts w)"
    using attempt_once_fst [of env cl "dict_get (seg_path seg) []" model w] by simp
  from st have a1: "attempts w1 = attempts w + 1"
    using attempt_once_attempts [of env cl "dict_get (seg_path seg) []" model w] by simp
  from st have s1: "sleeps w1 = sleeps w"
    using attempt_once_sleeps [of env cl "dict_get (seg_path seg) []" model w] by simp
  from Suc.prems(4) have "attempt_outcome env cl (dict_get (seg_path seg) []) model (attempts w + 0) = Inl (err 0)"
    by blast
  with o1 have fail: "o1 = Inl (err 0)" by simp
  show ?case
  proof (cases "a < max_retries - 1")
    case False
    with Suc.prems(2) have k0: "k = 0" and last: "a + 1 = max_retries" by auto
    from False st l fail a1 s1 k0 last show ?thesis by simp
  next
    case True
    let ?w2 = "sleep (d * (of_int a + 1)) w1"
    have a2: "attempts ?w2 = attempts w + 1" by (simp add: sleep_def a1)
    have s2: "sleeps ?w2 = sleeps w @ [d * (of_int a + 1)]" by (simp add: sleep_def s1)
    have p1: "0 \<le> a + 1" using Suc.prems(1) by simp
    have p2: "(a + 1) + int k \<le> max_retries" using Suc.prems(2) by simp
    have p3: "k = 0 \<longrightarrow> a + 1 < max_retries" using True by simp
    have p4: "\<forall>i<k. attempt_outcome env cl (dict_get (seg_path seg) []) model (attempts ?w2 + i)
                  = Inl (err (Suc i))"
      using Suc.prems(4) a2 by auto
    have p5: "(a + 1) + int k < max_retries \<longrightarrow>
                attempt_outcome env cl (dict_get (seg_path seg) []) model (attempts ?w2 + k) = Inr tx"
      using Suc.prems(5) a2 by auto
    note IH = Suc.IH [of "a + 1" ?w2 "\<lambda>i. err (Suc i)", OF p1 p2 p3 p4 p5]
    have step: "retry_loop env cl seg model max_retries d [a..max_retries - 1] w
                  = retry_loop env cl seg model max_retries d [a + 1..max_retries - 1] ?w2"
      using l st fail True by simp
    have shift: "\<And>n. map (\<lambda>i. d * (of_int a + real i + 1)) [0..<Suc n]
                   = d * (of_int a + 1) # map (\<lambda>i. d * (of_int (a + 1) + real i + 1)) [0..<n]"
      by (simp add: upt_conv_Cons map_Suc_upt [symmetric] add.assoc add.commute del: upt_Suc)
    show ?thesis
    proof (cases "a + int (Suc k) < max_retries")
      case lt2: True
      then have "(a + 1) + int k < max_retries" by simp
      with IH step a2 s2 lt2 shift [of k] show ?thesis
        by (simp split: prod.splits)
    next
      case ge2: False
      then have n: "\<not> (a + 1) + int k < max_retries" by simp
      from True Suc.prems(2) ge2 have kpos: "k > 0" by auto
      then obtain k' where k': "k = Suc k'" by (cases k) auto
      from IH step a2 s2 ge2 n kpos shift [of k'] k' show ?thesis
        by (simp split: prod.splits)
    qed
  qed
qed

lemma transcribe_run:
  assumes "1 \<le> max_retries" and "k \<le> nat max_retries"
    and "\<forall>i<k. attempt_outcome env cl (dict_get (seg_path seg) []) model (attempts w + i) = Inl (err i)"
    and "k < nat max_retries \<longrightarrow>
           attempt_outcome env cl (dict_get (seg_path seg) []) model (attempts w + k) = Inr tx"
  shows "case transcribe_audio_segment env cl seg model max_retries d w of (res, w') \<Rightarrow>
           res = Some (if k < nat max_retries then result_of seg tx True None
                       else result_of seg [] False (Some (str_exn (err (k - 1)))))
         \<and> attempts w' = attempts w + k + (if k < nat max_retries then 1 else 0)
         \<and> sleeps w' = sleeps w @ map (\<lambda>i. d * (real i + 1))
                                     [0..<(if k < nat max_retries then k else k - 1)]"
proof -
  have c: "(0 + int k < max_retries) = (k < nat max_retries)" using assms(1) by auto
  have p2: "0 + int k \<le> max_retries" using assms(1,2) by linarith
  have p3: "k = 0 \<longrightarrow> 0 < max_retries" using assms(1) by auto
  have p5: "0 + int k < max_retries \<longrightarrow>
           attempt_outcome env cl (dict_get (seg_path seg) []) model (attempts w + k) = Inr tx"
    using assms(4) c by simp
  from retry_loop_run [of 0 k max_retries env cl seg model w err tx d, OF _ p2 p3 assms(3) p5]
  show ?thesis
    unfolding transcribe_audio_segment_def c by simp
qed


text \<open>
  C3. In live mode with \<open>max_retries \<ge> 1\<close>, let the first \<open>k\<close> attempts on a segment fail
  and, when \<open>k < max_retries\<close>, the next one succeed. Then the sleeps the call adds are
  exactly \<open>retry_delay * (i + 1)\<close> for the failed attempts \<open>i\<close> that had an attempt left
  after them, in order. When all \<open>max_retries\<close> attempts fail, exactly \<open>max_retries\<close>
  attempts are made and the result is a failure record: \<open>success\<close> false, the message of the
  last error, empty text, and the id and timing fields of the segment.
\<close>

theorem retry_backoff_then_failure:
  assumes "1 \<le> max_retries" and "k \<le> nat max_retries"
    and "\<forall>i<k. attempt_outcome env cl (dict_get (seg_path seg) []) model (attempts w + i) = Inl (err i)"
    and "k < nat max_retries \<longrightarrow>
           attempt_outcome env cl (dict_get (seg_path seg) []) model (attempts w + k) = Inr tx"
  shows "case transcribe_audio_segment env cl seg model max_retries retry_delay w of (res, w') \<Rightarrow>
           sleeps w' = sleeps w @ map (\<lambda>i. retry_delay * (real i + 1)) [0..<min k (nat max_retries - 1)]
         \<and> (if k = nat max_retries
            then attempts w' = attempts w + nat max_retries
               \<and> (\<exists>r. res = Some r \<and> \<not> res_success r
                     \<and> res_error r = Some (str_exn (err (nat max_retries - 1)))
                     \<and> res_text r = []
                     \<and> res_segment_id r = dict_get (seg_segment_id seg) 0
                     \<and> res_start_time r = dict_get (seg_start_time seg) 0
                     \<and> res_end_time r = dict_get (seg_end_time seg) 0
                     \<and> res_duration r = dict_get (seg_duration seg) 0)
            else attempts w' = attempts w + k + 1
               \<and> (\<exists>r. res = Some r \<and> res_success r \<and> res_text r = tx \<and> res_error r = None))"
proof (cases "k < nat max_retries")
  case True
  then have m: "min k (nat max_retries - 1) = k" by simp
  from transcribe_run [OF assms, of retry_delay] True show ?thesis
    unfolding m by (simp add: result_of_def split: prod.splits)
next
  case False
  with assms(2) have k: "k = nat max_retries" by simp
  then have m: "min k (nat max_retries - 1) = k - 1" by simp
  from transcribe_run [OF assms, of retry_delay] False k show ?thesis
    unfolding m by (simp add: result_of_def split: prod.splits)
qed

theorem retry_backoff_then_failure_witness:
  "(1::int) \<le> 3
   \<and> sleeps (snd (transcribe_audio_segment env3 cl3 seg2 ''voxtral'' 3 2 w0)) = [2, 4]
   \<and> attempts (snd (transcribe_audio_segment env3 cl3 seg2 ''voxtral'' 3 2 w0)) = 3
   \<and> map_option res_error (fst (transcribe_audio_segment env3 cl3 seg2 ''voxtral'' 3 2 w0))
       = Some (Some ''Audio file not found: seg2.wav'')
   \<and> map_option res_end_time (fst (transcribe_audio_segment env3 cl3 seg2 ''voxtral'' 3 2 w0))
       = Some 60"
proof -
  have h1: "(1::int) \<le> 3" by simp
  have h2: "(3::nat) \<le> nat 3" by simp
  have h3: "\<forall>i<3::nat. attempt_outcome env3 cl3 (dict_get (seg_path seg2) []) ''voxtral'' (attempts w0 + i)
              = Inl (FileNotFoundError ''Audio file not found: seg2.wav'')"
    by (simp add: attempt_outcome_def attempt_once_def encode_audio_file_to_base64_def env3_def
        seg2_def dict_get_def Let_def)
  have h4: "(3::nat) < nat 3 \<longrightarrow>
      attempt_outcome env3 cl3 (dict_get (seg_path seg2) []) ''voxtral'' (attempts w0 + 3) = Inr []"
    by simp
  have u: "[0..<2] = [0, Suc 0]" by (simp add: upt_conv_Cons)
  from retry_backoff_then_failure [OF h1 h2 h3 h4, of 2] show ?thesis
    by (auto simp: u w0_def seg2_def dict_get_def split: prod.splits)
qed


lemma transcribe_first_success:
  assumes "1 \<le> max_retries"
    and "attempt_outcome env cl (dict_get (seg_path seg) []) model (attempts w) = Inr tx"
  shows "\<exists>w'. transcribe_audio_segment env cl seg model max_retries d w
                = (Some (result_of seg tx True None), w')
              \<and> attempts w' = attempts w + 1 \<and> sleeps w' = sleeps w"
proof -
  have h2: "(0::nat) \<le> nat max_retries" by simp
  have h3: "\<forall>i<0::nat. attempt_outcome env cl (dict_get (seg_path seg) []) model (attempts w + i)
                = Inl (err i)" for err
    by simp
  have h4: "0 < nat max_retries \<longrightarrow>
              attempt_outcome env cl (dict_get (seg_path seg) []) model (attempts w + 0) = Inr tx"
    using assms(2) by simp
  from transcribe_run [OF assms(1) h2 h3 h4, where d = d] assms(1) show ?thesis
    by (auto split: prod.splits)
qed

lemma transcribe_two_failures:
  assumes "attempt_outcome env cl (dict_get (seg_path seg) []) model (attempts w) = Inl e1"
    and "attempt_outcome env cl (dict_get (seg_path seg) []) model (attempts w + 1) = Inl e2"
  shows "\<exists>w'. transcribe_audio_segment env cl seg model 2 d w
                = (Some (result_of seg [] False (Some (str_exn e2))), w')
              \<and> attempts w' = attempts w + 2 \<and> sleeps w' = sleeps w @ [d * 1]"
proof -
  have h1: "(1::int) \<le> 2" by simp
  have h2: "(2::nat) \<le> nat 2" by simp
  have h3: "\<forall>i<2::nat. attempt_outcome env cl (dict_get (seg_path seg) []) model (attempts w + i)
                = Inl ((\<lambda>i. if i = 0 then e1 else e2) i)"
  proof (intro allI impI)
    fix i :: nat assume "i < 2"
    then have "i = 0 \<or> i = 1" by auto
    with assms show "attempt_outcome env cl (dict_get (seg_path seg) []) model (attempts w + i)
                = Inl ((\<lambda>i. if i = 0 then e1 else e2) i)"
      by auto
  qed
  have h4: "(2::nat) < nat 2 \<longrightarrow>
              attempt_outcome env cl (dict_get (seg_path seg) []) model (attempts w + 2) = Inr []"
    by simp
  from transcribe_run [OF h1 h2 h3 h4, of d] show ?thesis
    by (auto split: prod.splits)
qed

lemma scenario_run:
  assumes key: "api_key \<noteq> []"
    and cl: "cl = \<lparr>base_url = api_url, api_key_of = api_key\<rparr>"
    and o1: "attempt_outcome env cl (dict_get (seg_path s1) []) model (attempts w) = Inr t1"
    and o2: "attempt_outcome env cl (dict_get (seg_path s2) []) model (attempts w + 1) = Inl e1"
    and o3: "attempt_outcome env cl (dict_get (seg_path s2) []) model (attempts w + 2) = Inl e2"
    and o4: "attempt_outcome env cl (dict_get (seg_path s3) []) model (attempts w + 3) = Inr t3"
  shows "\<exists>w'. batch_transcribe_segments env api_url api_key [s1, s2, s3] model 2 show_progress w
           = (([result_of s1 t1 True None, result_of s3 t3 True None],
               [FailedResult (result_of s2 [] False (Some (str_exn e2)))]), w')
         \<and> sleeps w' = sleeps w @ [default_retry_delay * 1]"
proof -
  have m: "(1::int) \<le> 2" by simp
  from transcribe_first_success [OF m o1, of default_retry_delay]
  obtain w1 where r1: "transcribe_audio_segment env cl s1 model 2 default_retry_delay w
                         = (Some (result_of s1 t1 True None), w1)"
    and a1: "attempts w1 = attempts w + 1" and sl1: "sleeps w1 = sleeps w"
    by blast
  from o2 o3 a1
  have "attempt_outcome env cl (dict_get (seg_path s2) []) model (attempts w1) = Inl e1"
    and "attempt_outcome env cl (dict_get (seg_path s2) []) model (attempts w1 + 1) = Inl e2"
    by (simp_all add: add.assoc)
  from transcribe_two_failures [OF this, of default_retry_delay]
  obtain w2 where r2: "transcribe_audio_segment env cl s2 model 2 default_retry_delay w1
                         = (Some (result_of s2 [] False (Some (str_exn e2))), w2)"
    and a2: "attempts w2 = attempts w1 + 2"
    and sl2: "sleeps w2 = sleeps w1 @ [default_retry_delay * 1]"
    by blast
  from a1 a2 have "attempts w2 = attempts w + 3" by simp
  with o4
  have "attempt_outcome env cl (dict_get (seg_path s3) []) model (attempts w2) = Inr t3"
    by simp
  from transcribe_first_success [OF m this, of default_retry_delay]
  obtain w3 where r3: "transcribe_audio_segment env cl s3 model 2 default_retry_delay w2
                         = (Some (result_of s3 t3 True None), w3)"
    and a3: "attempts w3 = attempts w2 + 1" and sl3: "sleeps w3 = sleeps w2"
    by blast
  have "batch_transcribe_segments env api_url api_key [s1, s2, s3] model 2 show_progress w
           = (([result_of s1 t1 True None, result_of s3 t3 True None],
               [FailedResult (result_of s2 [] False (Some (str_exn e2)))]), w3)"
    using key r1 r2 r3 cl [symmetric]
    by (simp add: batch_transcribe_segments_def result_of_def)
  moreover have "sleeps w3 = sleeps w @ [default_retry_delay * 1]"
    by (simp add: sl1 sl2 sl3)
  ultimately show ?thesis by blast
qed

lemma env3_outcomes:
  "attempt_outcome env3 cl3 ''seg1.wav'' ''voxtral'' t = Inr ''hello''"
  "attempt_outcome env3 cl3 ''seg2.wav'' ''voxtral'' t
     = Inl (FileNotFoundError ''Audio file not found: seg2.wav'')"
  "attempt_outcome env3 cl3 ''seg3.wav'' ''voxtral'' t = Inr ''hello''"
  by (simp_all add: attempt_outcome_def attempt_once_def encode_audio_file_to_base64_def env3_def
        Let_def)

lemma attempt_outcome_message:
  assumes "attempt_outcome env cl p model t = Inl e" and "str_exn e = []"
  shows "e = ApiError []"
  using assms
  by (auto simp: attempt_outcome_def attempt_once_def encode_audio_file_to_base64_def Let_def
      split: read_result.splits sum.splits list.splits)

lemma env_silent_outcomes:
  "attempt_outcome env_silent cl3 ''seg1.wav'' ''voxtral'' t = Inr ''hello''"
  "attempt_outcome env_silent cl3 ''seg2.wav'' ''voxtral'' t = Inl (ApiError [])"
  "attempt_outcome env_silent cl3 ''seg3.wav'' ''voxtral'' t = Inr ''hello''"
  by (simp_all add: attempt_outcome_def attempt_once_def encode_audio_file_to_base64_def
        env_silent_def Let_def)

text \<open>
  C4. In live mode with \<open>max_retries = 2\<close> and three segments with ids 1, 2 and 3, where
  the first attempt on segments 1 and 3 succeeds and both attempts on segment 2 fail: the
  successes are exactly the results for ids 1 and 3, and the failures are exactly one failure
  record for id 2. Its error string is the message of the second failure, which is empty
  only when the endpoint raised an exception without a message. The batch sleeps once, for
  \<open>default_retry_delay * 1\<close> seconds: no sleep follows the last attempt on a segment.
\<close>

theorem scenario_one_failing_segment:
  assumes "api_key \<noteq> []"
    and "seg_segment_id s1 = Some 1" and "seg_segment_id s2 = Some 2" and "seg_segment_id s3 = Some 3"
    and "attempt_outcome env \<lparr>base_url = api_url, api_key_of = api_key\<rparr>
           (dict_get (seg_path s1) []) model (attempts w) = Inr t1"
    and "attempt_outcome env \<lparr>base_url = api_url, api_key_of = api_key\<rparr>
           (dict_get (seg_path s2) []) model (attempts w + 1) = Inl e1"
    and "attempt_outcome env \<lparr>base_url = api_url, api_key_of = api_key\<rparr>
           (dict_get (seg_path s2) []) model (attempts w + 2) = Inl e2"
    and "attempt_outcome env \<lparr>base_url = api_url, api_key_of = api_key\<rparr>
           (dict_get (seg_path s3) []) model (attempts w + 3) = Inr t3"
  shows "case batch_transcribe_segments env api_url api_key [s1, s2, s3] model 2 show_progress w of
           ((successes, failures), w') \<Rightarrow>
             successes = [result_of s1 t1 True None, result_of s3 t3 True None]
           \<and> map res_segment_id successes = [1, 3]
           \<and> (\<exists>r. failures = [FailedResult r] \<and> res_segment_id r = 2 \<and> \<not> res_success r
                  \<and> res_error r = Some (str_exn e2)
                  \<and> (res_error r = Some [] \<longrightarrow> e2 = ApiError []))
           \<and> sleeps w' = sleeps w @ [default_retry_delay * 1]
           \<and> sum_list (sleeps w') = sum_list (sleeps w) + default_retry_delay * 1"
proof -
  from scenario_run [OF assms(1) refl assms(5-8), of show_progress]
  obtain w' where
    "batch_transcribe_segments env api_url api_key [s1, s2, s3] model 2 show_progress w
           = (([result_of s1 t1 True None, result_of s3 t3 True None],
               [FailedResult (result_of s2 [] False (Some (str_exn e2)))]), w')"
    and "sleeps w' = sleeps w @ [default_retry_delay * 1]"
    by blast
  moreover have "str_exn e2 = [] \<longrightarrow> e2 = ApiError []"
    using attempt_outcome_message [OF assms(7)] by blast
  ultimately show ?thesis
    using assms(2-4) by (simp add: result_of_def dict_get_def)
qed

theorem scenario_one_failing_segment_witness:
  "''key'' \<noteq> []
   \<and> map res_segment_id (fst (fst (batch_transcribe_segments env3 ''http://voxtral'' ''key''
        [seg1, seg2, seg3] ''voxtral'' 2 True w0))) = [1, 3]
   \<and> map failed_id (snd (fst (batch_transcribe_segments env3 ''http://voxtral'' ''key''
        [seg1, seg2, seg3] ''voxtral'' 2 True w0))) = [2]
   \<and> map failed_error (snd (fst (batch_transcribe_segments env3 ''http://voxtral'' ''key''
        [seg1, seg2, seg3] ''voxtral'' 2 True w0)))
       = [Some ''Audio file not found: seg2.wav'']
   \<and> sum_list (sleeps (snd (batch_transcribe_segments env3 ''http://voxtral'' ''key''
        [seg1, seg2, seg3] ''voxtral'' 2 True w0))) = 2"
proof -
  have k: "''key'' \<noteq> []" by simp
  have i1: "seg_segment_id seg1 = Some 1" and i2: "seg_segment_id seg2 = Some 2"
    and i3: "seg_segment_id seg3 = Some 3"
    by (simp_all add: seg1_def seg2_def seg3_def)
  have p: "dict_get (seg_path seg1) [] = ''seg1.wav''" "dict_get (seg_path seg2) [] = ''seg2.wav''"
    "dict_get (seg_path seg3) [] = ''seg3.wav''"
    by (simp_all add: seg1_def seg2_def seg3_def dict_get_def)
  have c: "\<lparr>base_url = ''http://voxtral'', api_key_of = ''key''\<rparr> = cl3"
    by (simp add: cl3_def)
  have o1: "attempt_outcome env3 \<lparr>base_url = ''http://voxtral'', api_key_of = ''key''\<rparr>
              (dict_get (seg_path seg1) []) ''voxtral'' (attempts w0) = Inr ''hello''"
    unfolding p c by (rule env3_outcomes)
  have o2: "attempt_outcome env3 \<lparr>base_url = ''http://voxtral'', api_key_of = ''key''\<rparr>
              (dict_get (seg_path seg2) []) ''voxtral'' (attempts w0 + 1)
              = Inl (FileNotFoundError ''Audio file not found: seg2.wav'')"
    unfolding p c by (rule env3_outcomes)
  have o3: "attempt_outcome env3 \<lparr>base_url = ''http://voxtral'', api_key_of = ''key''\<rparr>
              (dict_get (seg_path seg2) []) ''voxtral'' (attempts w0 + 2)
              = Inl (FileNotFoundError ''Audio file not found: seg2.wav'')"
    unfolding p c by (rule env3_outcomes)
  have o4: "attempt_outcome env3 \<lparr>base_url = ''http://voxtral'', api_key_of = ''key''\<rparr>
              (dict_get (seg_path seg3) []) ''voxtral'' (attempts w0 + 3) = Inr ''hello''"
    unfolding p c by (rule env3_outcomes)
  from scenario_one_failing_segment [OF k i1 i2 i3 o1 o2 o3 o4, of True]
  show ?thesis
    by (auto simp: w0_def default_retry_delay_def failed_id_def failed_error_def
        split: prod.splits)
qed

theorem scenario_counterexample:
  "attempt_outcome env_silent cl3 (dict_get (seg_path seg1) []) ''voxtral'' 0 = Inr ''hello''
   \<and> attempt_outcome env_silent cl3 (dict_get (seg_path seg2) []) ''voxtral'' 1 = Inl (ApiError [])
   \<and> attempt_outcome env_silent cl3 (dict_get (seg_path seg2) []) ''voxtral'' 2 = Inl (ApiError [])
   \<and> attempt_outcome env_silent cl3 (dict_get (seg_path seg3) []) ''voxtral'' 3 = Inr ''hello''
   \<and> snd (fst (batch_transcribe_segments env_silent ''http://voxtral'' ''key''
        [seg1, seg2, seg3] ''voxtral'' 2 True w0))
       = [FailedResult (result_of seg2 [] False (Some []))]
   \<and> res_error (result_of seg2 [] False (Some [])) = Some []
   \<and> sum_list (sleeps (snd (batch_transcribe_segments env_silent ''http://voxtral'' ''key''
        [seg1, seg2, seg3] ''voxtral'' 2 True w0)))
       \<noteq> default_retry_delay * 1 + default_retry_delay * 2"
proof -
  have k: "''key'' \<noteq> []" by simp
  have p: "dict_get (seg_path seg1) [] = ''seg1.wav''" "dict_get (seg_path seg2) [] = ''seg2.wav''"
    "dict_get (seg_path seg3) [] = ''seg3.wav''"
    by (simp_all add: seg1_def seg2_def seg3_def dict_get_def)
  have c: "cl3 = \<lparr>base_url = ''http://voxtral'', api_key_of = ''key''\<rparr>"
    by (simp add: cl3_def)
  have o1: "attempt_outcome env_silent cl3 (dict_get (seg_path seg1) []) ''voxtral'' (attempts w0)
              = Inr ''hello''"
    unfolding p by (rule env_silent_outcomes)
  have o2: "attempt_outcome env_silent cl3 (dict_get (seg_path seg2) []) ''voxtral'' (attempts w0 + 1)
              = Inl (ApiError [])"
    unfolding p by (rule env_silent_outcomes)
  have o3: "attempt_outcome env_silent cl3 (dict_get (seg_path seg2) []) ''voxtral'' (attempts w0 + 2)
              = Inl (ApiError [])"
    unfolding p by (rule env_silent_outcomes)
  have o4: "attempt_outcome env_silent cl3 (dict_get (seg_path seg3) []) ''voxtral'' (attempts w0 + 3)
              = Inr ''hello''"
    unfolding p by (rule env_silent_outcomes)
  from scenario_run [OF k c o1 o2 o3 o4, of True]
  have "snd (fst (batch_transcribe_segments env_silent ''http://voxtral'' ''key''
          [seg1, seg2, seg3] ''voxtral'' 2 True w0))
          = [FailedResult (result_of seg2 [] False (Some []))]"
    and "sleeps (snd (batch_transcribe_segments env_silent ''http://voxtral'' ''key''
        [seg1, seg2, seg3] ''voxtral'' 2 True w0)) = [default_retry_delay * 1]"
    by (auto simp: w0_def)
  then show ?thesis
    unfolding p by (simp add: env_silent_outcomes default_retry_delay_def result_of_def)
qed

lemma assemble_permutation:
  assumes "distinct (map res_segment_id xs)" and "mset ys = mset xs"
  shows "create_complete_transcript ys = create_complete_transcript xs"
proof -
  from assms(1) have "inj_on res_segment_id (set xs)"
    by (simp add: distinct_map)
  with assms(2) have "inj_on res_segment_id (set ys)"
    by (metis set_mset_mset)
  with assms(2) have "sort_key res_segment_id ys = sort_key res_segment_id xs"
    by (rule sort_key_eq_sort_key)
  then show ?thesis
    by (simp add: create_complete_transcript_def)
qed

lemma assemble_sorted:
  assumes "distinct (map res_segment_id xs)" and "mset ys = mset xs"
    and "mset zs = mset xs" and "sorted (map res_segment_id zs)"
  shows "create_complete_transcript ys
           = join [CHR 0x0A]
               ([''=== EARNINGS CALL TRANSCRIPT ==='' @ [CHR 0x0A]]
                @ concat (map segment_lines zs) @ footer_lines zs)"
proof -
  from assms(1) have "inj_on res_segment_id (set xs)"
    by (simp add: distinct_map)
  with assms(2) have inj: "inj_on res_segment_id (set ys)"
    by (metis set_mset_mset)
  from assms(2,3) have "mset ys = mset zs" by simp
  from this inj assms(4) have "sort_key res_segment_id ys = zs"
    by (rule sort_key_inj_key_eq)
  then show ?thesis
    by (simp add: create_complete_transcript_def)
qed

lemma render_example:
  "join [CHR 0x0A]
     ([''=== EARNINGS CALL TRANSCRIPT ==='' @ [CHR 0x0A]]
      @ concat (map segment_lines [tr1, tr2]) @ footer_lines [tr1, tr2])
   = ''=== EARNINGS CALL TRANSCRIPT ==='' @ [CHR 0x0A, CHR 0x0A, CHR 0x0A]
     @ ''[00:00 - 01:15]'' @ [CHR 0x0A] @ ''Good morning.'' @ [CHR 0x0A, CHR 0x0A]
     @ ''[01:15 - 02:20]'' @ [CHR 0x0A] @ ''Revenue grew.'' @ [CHR 0x0A, CHR 0x0A, CHR 0x0A]
     @ ''=== END TRANSCRIPT ==='' @ [CHR 0x0A, CHR 0x0A]
     @ ''Total segments: 2'' @ [CHR 0x0A] @ ''Total duration: 2:20''"
  by (simp add: segment_lines_def footer_lines_def timestamp_def format_02d_def str_of_int_def
      str_of_nat.simps digit_char_def floordiv60_def mod60_def strip_def is_space_def
      tr1_def tr2_def Let_def)

text \<open>
  C6. For results with distinct segment ids, assembling any permutation of the list gives
  the same document as assembling the list itself, and that document is the one laid out
  from the results in ascending order of segment id: the header line, the two lines of
  each result in that order, and the footer computed from the list in that order.
\<close>

theorem assembly_order_independent:
  assumes "distinct (map res_segment_id xs)" and "mset ys = mset xs"
  shows "create_complete_transcript ys = create_complete_transcript xs
       \<and> (\<exists>zs. mset zs = mset xs \<and> sorted (map res_segment_id zs)
              \<and> create_complete_transcript ys
                  = join [CHR 0x0A]
                      ([''=== EARNINGS CALL TRANSCRIPT ==='' @ [CHR 0x0A]]
                       @ concat (map segment_lines zs) @ footer_lines zs))
       \<and> (\<forall>zs. mset zs = mset xs \<and> sorted (map res_segment_id zs) \<longrightarrow>
             create_complete_transcript ys
               = join [CHR 0x0A]
                   ([''=== EARNINGS CALL TRANSCRIPT ==='' @ [CHR 0x0A]]
                    @ concat (map segment_lines zs) @ footer_lines zs))"
proof (intro conjI allI impI)
  show "create_complete_transcript ys = create_complete_transcript xs"
    using assms by (rule assemble_permutation)
  let ?zs = "sort_key res_segment_id xs"
  have m: "mset ?zs = mset xs" and o: "sorted (map res_segment_id ?zs)"
    by simp_all
  from assms m o have "create_complete_transcript ys
                  = join [CHR 0x0A]
                      ([''=== EARNINGS CALL TRANSCRIPT ==='' @ [CHR 0x0A]]
                       @ concat (map segment_lines ?zs) @ footer_lines ?zs)"
    by (rule assemble_sorted)
  with m o show "\<exists>zs. mset zs = mset xs \<and> sorted (map res_segment_id zs)
              \<and> create_complete_transcript ys
                  = join [CHR 0x0A]
                      ([''=== EARNINGS CALL TRANSCRIPT ==='' @ [CHR 0x0A]]
                       @ concat (map segment_lines zs) @ footer_lines zs)"
    by blast
next
  fix zs
  assume z: "mset zs = mset xs \<and> sorted (map res_segment_id zs)"
  then have "mset zs = mset xs" and "sorted (map res_segment_id zs)" by simp_all
  with assms show "create_complete_transcript ys
               = join [CHR 0x0A]
                   ([''=== EARNINGS CALL TRANSCRIPT ==='' @ [CHR 0x0A]]
                    @ concat (map segment_lines zs) @ footer_lines zs)"
    by (rule assemble_sorted)
qed

theorem assembly_order_independent_witness:
  "distinct (map res_segment_id [tr1, tr2]) \<and> mset [tr2, tr1] = mset [tr1, tr2]
   \<and> create_complete_transcript [tr2, tr1] = create_complete_transcript [tr1, tr2]
   \<and> create_complete_transcript [tr2, tr1]
       = ''=== EARNINGS CALL TRANSCRIPT ==='' @ [CHR 0x0A, CHR 0x0A, CHR 0x0A]
         @ ''[00:00 - 01:15]'' @ [CHR 0x0A] @ ''Good morning.'' @ [CHR 0x0A, CHR 0x0A]
         @ ''[01:15 - 02:20]'' @ [CHR 0x0A] @ ''Revenue grew.'' @ [CHR 0x0A, CHR 0x0A, CHR 0x0A]
         @ ''=== END TRANSCRIPT ==='' @ [CHR 0x0A, CHR 0x0A]
         @ ''Total segments: 2'' @ [CHR 0x0A] @ ''Total duration: 2:20''"
proof -
  have d: "distinct (map res_segment_id [tr1, tr2])" by (simp add: tr1_def tr2_def)
  have m: "mset [tr2, tr1] = mset [tr1, tr2]" by simp
  have z: "mset [tr1, tr2] = mset [tr1, tr2] \<and> sorted (map res_segment_id [tr1, tr2])"
    by (simp add: tr1_def tr2_def)
  note t = assembly_order_independent [OF d m]
  from t have e: "create_complete_transcript [tr2, tr1] = create_complete_transcript [tr1, tr2]"
    by (rule conjunct1)
  from t z have "create_complete_transcript [tr2, tr1]
       = join [CHR 0x0A]
           ([''=== EARNINGS CALL TRANSCRIPT ==='' @ [CHR 0x0A]]
            @ concat (map segment_lines [tr1, tr2]) @ footer_lines [tr1, tr2])"
    by blast
  then have "create_complete_transcript [tr2, tr1]
       = ''=== EARNINGS CALL TRANSCRIPT ==='' @ [CHR 0x0A, CHR 0x0A, CHR 0x0A]
         @ ''[00:00 - 01:15]'' @ [CHR 0x0A] @ ''Good morning.'' @ [CHR 0x0A, CHR 0x0A]
         @ ''[01:15 - 02:20]'' @ [CHR 0x0A] @ ''Revenue grew.'' @ [CHR 0x0A, CHR 0x0A, CHR 0x0A]
         @ ''=== END TRANSCRIPT ==='' @ [CHR 0x0A, CHR 0x0A]
         @ ''Total segments: 2'' @ [CHR 0x0A] @ ''Total duration: 2:20''"
    by (simp only: render_example)
  with d m e show ?thesis by blast
qed

lemma total_duration_last:
  "ts \<noteq> [] \<Longrightarrow> total_duration (create_transcript_metadata ts audio_file rate) = res_end_time (last ts)"
  by (simp add: create_transcript_metadata_def Let_def)

text \<open>
  C8. The metadata builder does not sort: for a non-empty list its total duration is the
  end time of the last element in the order given. So there are two permutations of the
  same results, with distinct ids, whose total duration and average segment duration
  differ while the assembled document is the same.
\<close>

theorem metadata_follows_input_order:
  "(\<forall>ts audio_file rate. ts \<noteq> [] \<longrightarrow>
       total_duration (create_transcript_metadata ts audio_file rate) = res_end_time (last ts))
   \<and> (\<exists>xs ys. mset ys = mset xs \<and> distinct (map res_segment_id xs)
         \<and> total_duration (create_transcript_metadata xs audio_file rate)
             \<noteq> total_duration (create_transcript_metadata ys audio_file rate)
         \<and> avg_segment_duration (create_transcript_metadata xs audio_file rate)
             \<noteq> avg_segment_duration (create_transcript_metadata ys audio_file rate)
         \<and> create_complete_transcript xs = create_complete_transcript ys)"
proof (intro conjI allI impI)
  fix ts :: "transcription list" and audio_file rate
  assume "ts \<noteq> []"
  then show "total_duration (create_transcript_metadata ts audio_file rate) = res_end_time (last ts)"
    by (rule total_duration_last)
next
  have d: "distinct (map res_segment_id [tr1, tr2])" by (simp add: tr1_def tr2_def)
  have m: "mset [tr2, tr1] = mset [tr1, tr2]" by simp
  have t: "total_duration (create_transcript_metadata [tr1, tr2] audio_file rate)
             \<noteq> total_duration (create_transcript_metadata [tr2, tr1] audio_file rate)"
    by (simp add: create_transcript_metadata_def Let_def tr1_def tr2_def)
  have a: "avg_segment_duration (create_transcript_metadata [tr1, tr2] audio_file rate)
             \<noteq> avg_segment_duration (create_transcript_metadata [tr2, tr1] audio_file rate)"
    by (simp add: create_transcript_metadata_def Let_def tr1_def tr2_def)
  have c: "create_complete_transcript [tr1, tr2] = create_complete_transcript [tr2, tr1]"
    by (rule assemble_permutation [OF d m, symmetric])
  from d m t a c
  show "\<exists>xs ys. mset ys = mset xs \<and> distinct (map res_segment_id xs)
         \<and> total_duration (create_transcript_metadata xs audio_file rate)
             \<noteq> total_duration (create_transcript_metadata ys audio_file rate)
         \<and> avg_segment_duration (create_transcript_metadata xs audio_file rate)
             \<noteq> avg_segment_duration (create_transcript_metadata ys audio_file rate)
         \<and> create_complete_transcript xs = create_complete_transcript ys"
    by blast
qed

theorem metadata_follows_input_order_witness:
  "[tr2, tr1] \<noteq> []
   \<and> total_duration (create_transcript_metadata [tr2, tr1] ''call.mp3'' 16000) = 75
   \<and> total_duration (create_transcript_metadata [tr1, tr2] ''call.mp3'' 16000) = 140"
proof -
  have n: "[tr2, tr1] \<noteq> []" "[tr1, tr2] \<noteq> []" by simp_all
  from metadata_follows_input_order [of "''call.mp3''" 16000]
  have all: "\<forall>ts audio_file rate. ts \<noteq> [] \<longrightarrow>
       total_duration (create_transcript_metadata ts audio_file rate) = res_end_time (last ts)"
    by (rule conjunct1)
  from all n(1) have "total_duration (create_transcript_metadata [tr2, tr1] ''call.mp3'' 16000)
          = res_end_time (last [tr2, tr1])"
    by blast
  moreover from all n(2) have "total_duration (create_transcript_metadata [tr1, tr2] ''call.mp3'' 16000)
          = res_end_time (last [tr1, tr2])"
    by blast
  ultimately show ?thesis by (simp add: tr1_def tr2_def)
qed

lemma live_loop_zero_retries:
  "live_loop env cl model 0 segs successful failed w
     = ((successful, failed @ map RawSegment segs), w)"
  by (induction segs arbitrary: failed) (simp_all add: transcribe_audio_segment_def)

text \<open>
  C9. In live mode with \<open>max_retries = 0\<close> the per-segment call makes no attempt and
  returns \<open>None\<close>, leaving the world as it was; the batch then has no successes and its
  failures are the raw segment records themselves, in input order (a segment record has
  no text, success or error entry), so the two lists still have N entries together.
\<close>

theorem zero_retries_yield_raw_segments:
  assumes "api_key \<noteq> []"
  shows "transcribe_audio_segment env cl seg model 0 retry_delay w = (None, w)
       \<and> (case batch_transcribe_segments env api_url api_key segs model 0 show_progress w of
            ((successes, failures), w') \<Rightarrow>
              successes = [] \<and> failures = map RawSegment segs \<and> w' = w
              \<and> length successes + length failures = length segs)"
  using assms
  by (simp add: transcribe_audio_segment_def batch_transcribe_segments_def live_loop_zero_retries)

theorem zero_retries_yield_raw_segments_witness:
  "''key'' \<noteq> []
   \<and> transcribe_audio_segment env3 cl3 seg1 ''voxtral'' 0 2 w0 = (None, w0)
   \<and> batch_transcribe_segments env3 ''http://voxtral'' ''key'' [seg1, seg2] ''voxtral'' 0 True w0
       = (([], [RawSegment seg1, RawSegment seg2]), w0)"
proof -
  have k: "''key'' \<noteq> []" by simp
  from zero_retries_yield_raw_segments [OF k, where env = env3 and cl = cl3 and seg = seg1
      and model = "''voxtral''" and retry_delay = 2 and w = w0 and api_url = "''http://voxtral''"
      and segs = "[seg1, seg2]" and show_progress = True]
  show ?thesis by (auto split: prod.splits)
qed

lemma stub_batch:
  "batch_transcribe_segments env api_url [] segs model max_retries show_progress w
     = ((map stub_result segs, []), w)"
  by (simp add: batch_transcribe_segments_def)

lemma stub_result_text:
  "res_text (stub_result seg)
     = ''[DEMO TRANSCRIPT] Segment '' @ str_of_int (dict_get (seg_segment_id seg) 0 + 1)
       @ '' from file '' @ [CHR 0x27]
       @ or_else (seg_filename seg) (path_name (dict_get (seg_path seg) []))
       @ [CHR 0x27] @ ''. This is generated placeholder text to illustrate the final ''
       @ ''experience without calling the Voxtral API.''"
  by (simp add: stub_result_def demo_text_def Let_def)

lemma stub_result_success: "res_success (stub_result seg)"
  by (simp add: stub_result_def Let_def)

text \<open>
  C5. With an empty API key the batch leaves the world untouched (no network call, no
  attempt, no sleep), returns no failures and one success per segment, in input order; the
  text of each is the fixed placeholder holding the segment id plus one (the 1-based number
  of a segment whose ids count from zero) and the file name, which is the \<open>filename\<close> entry
  or, when that is absent or empty, the last component of the path.
\<close>

theorem stub_mode_placeholders:
  assumes "batch_transcribe_segments env api_url [] segs model max_retries show_progress w
             = ((successes, failures), w')"
  shows "w' = w \<and> network_calls w' = network_calls w \<and> failures = []
       \<and> length successes = length segs
       \<and> (\<forall>i<length segs.
            res_success (successes ! i)
            \<and> res_text (successes ! i)
                = ''[DEMO TRANSCRIPT] Segment ''
                  @ str_of_int (dict_get (seg_segment_id (segs ! i)) 0 + 1)
                  @ '' from file '' @ [CHR 0x27]
                  @ or_else (seg_filename (segs ! i)) (path_name (dict_get (seg_path (segs ! i)) []))
                  @ [CHR 0x27] @ ''. This is generated placeholder text to illustrate the final ''
                  @ ''experience without calling the Voxtral API.'')"
proof -
  from assms have s: "successes = map stub_result segs" and f: "failures = []" and w: "w' = w"
    by (simp_all add: stub_batch)
  show ?thesis
    unfolding s f w
    by (simp add: stub_result_success stub_result_text del: append.simps)
qed

theorem stub_mode_placeholders_witness:
  "snd (batch_transcribe_segments env3 ''http://voxtral'' [] [seg0, seg1] ''voxtral'' 3 True w0) = w0
   \<and> res_text (fst (fst (batch_transcribe_segments env3 ''http://voxtral'' [] [seg0, seg1]
          ''voxtral'' 3 True w0)) ! 0)
       = ''[DEMO TRANSCRIPT] Segment 1 from file '' @ [CHR 0x27] @ ''segment_000.wav'' @ [CHR 0x27]
         @ ''. This is generated placeholder text to illustrate the final ''
         @ ''experience without calling the Voxtral API.''
   \<and> res_text (fst (fst (batch_transcribe_segments env3 ''http://voxtral'' [] [seg0, seg1]
          ''voxtral'' 3 True w0)) ! 1)
       = ''[DEMO TRANSCRIPT] Segment 2 from file '' @ [CHR 0x27] @ ''seg1.wav'' @ [CHR 0x27]
         @ ''. This is generated placeholder text to illustrate the final ''
         @ ''experience without calling the Voxtral API.''"
proof -
  let ?R = "batch_transcribe_segments env3 ''http://voxtral'' [] [seg0, seg1] ''voxtral'' 3 True w0"
  have run: "?R = ((fst (fst ?R), snd (fst ?R)), snd ?R)" by simp
  have n: "str_of_int 1 = ''1''" "str_of_int 2 = ''2''"
    by (simp_all add: str_of_int_def str_of_nat.simps digit_char_def)
  note t = stub_mode_placeholders [OF run]
  from t have w: "snd ?R = w0" by blast
  from t have a: "\<forall>i<length [seg0, seg1].
            res_success (fst (fst ?R) ! i)
            \<and> res_text (fst (fst ?R) ! i)
                = ''[DEMO TRANSCRIPT] Segment ''
                  @ str_of_int (dict_get (seg_segment_id ([seg0, seg1] ! i)) 0 + 1)
                  @ '' from file '' @ [CHR 0x27]
                  @ or_else (seg_filename ([seg0, seg1] ! i))
                      (path_name (dict_get (seg_path ([seg0, seg1] ! i)) []))
                  @ [CHR 0x27] @ ''. This is generated placeholder text to illustrate the final ''
                  @ ''experience without calling the Voxtral API.''"
    by blast
  have i0: "(0::nat) < length [seg0, seg1]" and i1: "(1::nat) < length [seg0, seg1]" by simp_all
  from a i0 have t0: "res_text (fst (fst ?R) ! 0)
       = ''[DEMO TRANSCRIPT] Segment '' @ str_of_int (dict_get (seg_segment_id seg0) 0 + 1)
         @ '' from file '' @ [CHR 0x27]
         @ or_else (seg_filename seg0) (path_name (dict_get (seg_path seg0) []))
         @ [CHR 0x27] @ ''. This is generated placeholder text to illustrate the final ''
         @ ''experience without calling the Voxtral API.''"
    by (metis nth_Cons_0)
  from a i1 have t1: "res_text (fst (fst ?R) ! 1)
       = ''[DEMO TRANSCRIPT] Segment '' @ str_of_int (dict_get (seg_segment_id seg1) 0 + 1)
         @ '' from file '' @ [CHR 0x27]
         @ or_else (seg_filename seg1) (path_name (dict_get (seg_path seg1) []))
         @ [CHR 0x27] @ ''. This is generated placeholder text to illustrate the final ''
         @ ''experience without calling the Voxtral API.''"
    by (metis One_nat_def nth_Cons_0 nth_Cons_Suc)
  have p: "path_name ''/data/segments/segment_000.wav'' = ''segment_000.wav''"
    by (simp add: path_name_def)
  have e0: "dict_get (seg_segment_id seg0) 0 + 1 = 1"
    "or_else (seg_filename seg0) (path_name (dict_get (seg_path seg0) [])) = ''segment_000.wav''"
    by (simp_all add: seg0_def dict_get_def or_else_def p)
  have e1: "dict_get (seg_segment_id seg1) 0 + 1 = 2" "or_else (seg_filename seg1) x = ''seg1.wav''"
    for x by (simp_all add: seg1_def dict_get_def or_else_def)
  from w t0 t1 show ?thesis
    unfolding e0 e1 n by simp
qed

section \<open>Properties of the event handler\<close>

lemma extract_event_nonempty:
  "extract_event now d = (Some b, k, t) \<Longrightarrow> \<not> is_empty_data d"
  by (auto simp: extract_event_def is_empty_data_def dict_get_def bucket_name_of_def
      split: list.splits option.splits)

text \<open>
  C7. When the payload yields the bucket \<open>audio-inbox\<close> and a non-empty object key whose
  percent-decoded, lower-cased form starts with \<open>transcripts/\<close>, the handler answers
  \<open>ignored\<close> (HTTP 200) with the reason \<open>transcript artifacts are not ingested\<close>, whatever
  the extension of the key, and leaves the state as it was: no request is sent.
\<close>

theorem transcript_artifacts_ignored:
  assumes "ce_data event = Some d"
    and "extract_event (now_isoformat env (length (requests st))) d
           = (Some ''audio-inbox'', Some key, event_time)"
    and "key \<noteq> []"
    and "startswith (lower (unquote key)) ''transcripts/''"
  shows "handle_event env cfg (Inr event) st
           = ((Ignored ''transcript artifacts are not ingested'', 200), st)
       \<and> status_of (fst (fst (handle_event env cfg (Inr event) st))) = ''ignored''
       \<and> requests (snd (handle_event env cfg (Inr event) st)) = requests st"
proof -
  from assms(2) have ne: "\<not> is_empty_data d" by (rule extract_event_nonempty)
  have "handle_event env cfg (Inr event) st
           = ((Ignored ''transcript artifacts are not ingested'', 200), st)"
    using assms ne by (simp add: handle_event_def truthy_str_def dict_get_def Let_def)
  then show ?thesis by simp
qed

theorem transcript_artifacts_ignored_witness:
  "ce_data event7 \<noteq> None
   \<and> endswith (lower (unquote ''Transcripts/call%20one.MP3'')) ''.mp3''
   \<and> handle_event env_found cfg0 (Inr event7) st0
       = ((Ignored ''transcript artifacts are not ingested'', 200), st0)"
proof -
  have u: "unquote ''Transcripts/call%20one.MP3'' = ''Transcripts/call one.MP3''"
    by code_simp
  have l: "lower ''Transcripts/call one.MP3'' = ''transcripts/call one.mp3''"
    by (simp add: lower_def lower_char_def)
  have d: "ce_data event7 = Some \<lparr>d_Records = Some [\<lparr>r_s3 = Some \<lparr>s_bucket = Some \<lparr>b_name = Some ''audio-inbox''\<rparr>,
                                                    s_object = Some \<lparr>o_key = Some ''Transcripts/call%20one.MP3''\<rparr>\<rparr>,
                                       r_eventTime = Some ''2024-01-01T00:00:00Z''\<rparr>],
                     d_bucket = None, d_object = None, d_eventTime = None,
                     d_other_keys = False\<rparr>"
    by (simp add: event7_def)
  have e: "extract_event (now_isoformat env_found (length (requests st0)))
             \<lparr>d_Records = Some [\<lparr>r_s3 = Some \<lparr>s_bucket = Some \<lparr>b_name = Some ''audio-inbox''\<rparr>,
                                                    s_object = Some \<lparr>o_key = Some ''Transcripts/call%20one.MP3''\<rparr>\<rparr>,
                                       r_eventTime = Some ''2024-01-01T00:00:00Z''\<rparr>],
                     d_bucket = None, d_object = None, d_eventTime = None,
                     d_other_keys = False\<rparr>
           = (Some ''audio-inbox'', Some ''Transcripts/call%20one.MP3'', ''2024-01-01T00:00:00Z'')"
    by (simp add: extract_event_def dict_get_def bucket_name_of_def object_key_of_def)
  have k: "''Transcripts/call%20one.MP3'' \<noteq> []" by simp
  have p: "startswith (lower (unquote ''Transcripts/call%20one.MP3'')) ''transcripts/''"
    unfolding u l by (simp add: startswith_def)
  have x: "endswith (lower (unquote ''Transcripts/call%20one.MP3'')) ''.mp3''"
    unfolding u l by (simp add: endswith_def)
  from transcript_artifacts_ignored [OF d e k p, of cfg0] d x show ?thesis by simp
qed

lemma get_kfp_session_frame:
  assumes "get_kfp_session cfg st = (session, st1)"
  shows "requests st1 = requests st"
    and "cached_experiment_id st1 = cached_experiment_id st"
    and "cached_pipeline_id st1 = cached_pipeline_id st"
  using assms by (auto simp: get_kfp_session_def Let_def split: option.splits)

lemma kfp_request_frame:
  assumes "kfp_request env cfg method path params body timeout_kw st = (res, st')"
  shows "\<exists>req. requests st' = requests st @ [req] \<and> req_method req = upper method
              \<and> req_url req = request_url cfg path"
    and "cached_experiment_id st' = cached_experiment_id st"
    and "cached_pipeline_id st' = cached_pipeline_id st"
proof -
  obtain session st1 where g: "get_kfp_session cfg st = (session, st1)"
    by (cases "get_kfp_session cfg st")
  let ?req = "\<lparr>req_method = upper method, req_url = request_url cfg path,
                 req_timeout = dict_get timeout_kw (KFP_REQUEST_TIMEOUT cfg),
                 req_params = params, req_json = body, req_session = session\<rparr>"
  from assms g have st': "st' = st1\<lparr>requests := requests st1 @ [?req]\<rparr>"
    by (auto simp: kfp_request_def Let_def split: sum.splits if_splits option.splits)
  from st' get_kfp_session_frame [OF g]
  show "\<exists>req. requests st' = requests st @ [req] \<and> req_method req = upper method
              \<and> req_url req = request_url cfg path"
    and "cached_experiment_id st' = cached_experiment_id st"
    and "cached_pipeline_id st' = cached_pipeline_id st"
    by auto
qed

lemma upper_GET: "upper ''GET'' = ''GET''"
  by (simp add: upper_def upper_char_def)

lemma uncached_experiment_lists:
  assumes "\<not> truthy_str (cached_experiment_id st)"
  shows "\<exists>req more. requests (snd (get_or_create_experiment_id env cfg st))
                       = requests st @ req # more
                   \<and> req_method req = ''GET''
                   \<and> req_url req = request_url cfg ''/apis/v2beta1/experiments''"
proof -
  obtain res st1 where r1:
    "kfp_request env cfg ''GET'' ''/apis/v2beta1/experiments'' (experiment_params env cfg)
       NoBody None st = (res, st1)"
    by (cases "kfp_request env cfg ''GET'' ''/apis/v2beta1/experiments''
                 (experiment_params env cfg) NoBody None st")
  from kfp_request_frame(1) [OF r1] obtain req where
    q: "requests st1 = requests st @ [req]" "req_method req = ''GET''"
       "req_url req = request_url cfg ''/apis/v2beta1/experiments''"
    by (auto simp: upper_GET)
  show ?thesis
  proof (cases res)
    case (Inl e)
    with assms r1 q show ?thesis
      by (simp add: get_or_create_experiment_id_def)
  next
    case (Inr experiments)
    show ?thesis
    proof (cases "dict_get (j_experiments experiments) []")
      case (Cons item others)
      with assms r1 q Inr show ?thesis
        by (simp add: get_or_create_experiment_id_def)
    next
      case Nil
      let ?payload = "ExperimentBody (EXPERIMENT_NAME cfg) (KFP_NAMESPACE cfg)
                         (''Auto-created by FinSight handler at ''
                            @ utcnow_isoformat env (length (requests st1)) @ ''Z'')"
      obtain res2 st2 where r2:
        "kfp_request env cfg ''POST'' ''/apis/v2beta1/experiments'' [] ?payload None st1
           = (res2, st2)"
        by (cases "kfp_request env cfg ''POST'' ''/apis/v2beta1/experiments'' [] ?payload None st1")
      from kfp_request_frame(1) [OF r2] obtain req2 where
        q2: "requests st2 = requests st1 @ [req2]"
        by auto
      from assms r1 r2 q q2 Inr Nil show ?thesis
        by (cases res2) (simp_all add: get_or_create_experiment_id_def Let_def)
    qed
  qed
qed

text \<open>
  C10. Let the cache slot of the experiment be empty and the list call answer with a
  non-empty list whose first entry has no experiment id. Then the resolution returns
  \<open>None\<close> without an error, having sent the list call only (no create call), and stores
  \<open>None\<close> in the slot; so the next resolution begins with the list call again.
\<close>

theorem experiment_without_id_is_not_cached:
  assumes "\<not> truthy_str (cached_experiment_id st)"
    and "kfp_request env cfg ''GET'' ''/apis/v2beta1/experiments'' (experiment_params env cfg)
           NoBody None st = (Inr j, st1)"
    and "j_experiments j = Some (item # others)"
    and "item_experiment_id item = None"
  shows "get_or_create_experiment_id env cfg st = (Inr None, st1\<lparr>cached_experiment_id := None\<rparr>)
       \<and> length (requests (st1\<lparr>cached_experiment_id := None\<rparr>)) = length (requests st) + 1
       \<and> (\<exists>req more.
             requests (snd (get_or_create_experiment_id env2 cfg (st1\<lparr>cached_experiment_id := None\<rparr>)))
               = requests (st1\<lparr>cached_experiment_id := None\<rparr>) @ req # more
             \<and> req_method req = ''GET''
             \<and> req_url req = request_url cfg ''/apis/v2beta1/experiments'')"
proof (intro conjI)
  from assms show "get_or_create_experiment_id env cfg st
                     = (Inr None, st1\<lparr>cached_experiment_id := None\<rparr>)"
    by (simp add: get_or_create_experiment_id_def dict_get_def)
  from kfp_request_frame(1) [OF assms(2)]
  show "length (requests (st1\<lparr>cached_experiment_id := None\<rparr>)) = length (requests st) + 1"
    by auto
  have "\<not> truthy_str (cached_experiment_id (st1\<lparr>cached_experiment_id := None\<rparr>))"
    by (simp add: truthy_str_def)
  then show "\<exists>req more.
             requests (snd (get_or_create_experiment_id env2 cfg (st1\<lparr>cached_experiment_id := None\<rparr>)))
               = requests (st1\<lparr>cached_experiment_id := None\<rparr>) @ req # more
             \<and> req_method req = ''GET''
             \<and> req_url req = request_url cfg ''/apis/v2beta1/experiments''"
    by (rule uncached_experiment_lists)
qed

lemma kfp_request_env_found:
  "fst (kfp_request env_found cfg0 method path params body timeout_kw st) = Inr json_found"
  by (simp add: kfp_request_def env_found_def Let_def split: prod.splits)

lemma kfp_request_env_no_id:
  "fst (kfp_request env_no_id cfg0 method path params body timeout_kw st)
     = Inr (json_found\<lparr>j_experiments := Some [\<lparr>item_experiment_id = None\<rparr>]\<rparr>)"
  by (simp add: kfp_request_def env_no_id_def env_found_def Let_def split: prod.splits)

theorem experiment_without_id_is_not_cached_witness:
  "\<not> truthy_str (cached_experiment_id st0)
   \<and> fst (get_or_create_experiment_id env_no_id cfg0 st0) = Inr None
   \<and> length (requests (snd (get_or_create_experiment_id env_no_id cfg0 st0))) = 1
   \<and> (\<exists>req more.
         requests (snd (get_or_create_experiment_id env_no_id cfg0
                          (snd (get_or_create_experiment_id env_no_id cfg0 st0))))
           = requests (snd (get_or_create_experiment_id env_no_id cfg0 st0)) @ req # more
         \<and> req_method req = ''GET'')"
proof -
  let ?K = "kfp_request env_no_id cfg0 ''GET'' ''/apis/v2beta1/experiments''
              (experiment_params env_no_id cfg0) NoBody None st0"
  let ?j = "json_found\<lparr>j_experiments := Some [\<lparr>item_experiment_id = None\<rparr>]\<rparr>"
  have c: "\<not> truthy_str (cached_experiment_id st0)"
    by (simp add: st0_def truthy_str_def)
  have k: "?K = (Inr ?j, snd ?K)"
    by (rule prod_eqI) (simp_all add: kfp_request_env_no_id)
  have e: "j_experiments ?j = Some (\<lparr>item_experiment_id = None\<rparr> # [])" by simp
  have i: "item_experiment_id \<lparr>item_experiment_id = None\<rparr> = None" by simp
  have n: "requests st0 = []" by (simp add: st0_def)
  from experiment_without_id_is_not_cached [OF c k e i, of env_no_id] c n show ?thesis
    by auto
qed

lemma find_pipeline_truthy: "find_pipeline pname ps = Some p \<Longrightarrow> p \<noteq> []"
  by (induction ps) (auto simp: Let_def truthy_str_def split: if_splits option.splits)

lemma experiment_cache_hit:
  "cached_experiment_id st = Some eid \<Longrightarrow> eid \<noteq> []
    \<Longrightarrow> get_or_create_experiment_id env cfg st = (Inr (Some eid), st)"
  by (simp add: get_or_create_experiment_id_def truthy_str_def)

lemma pipeline_cache_hit:
  "cached_pipeline_id st = Some pid \<Longrightarrow> pid \<noteq> []
    \<Longrightarrow> get_pipeline_id env cfg st = (Inr (Some pid), st)"
  by (simp add: get_pipeline_id_def truthy_str_def)

lemma experiment_resolution_caches:
  assumes "get_or_create_experiment_id env cfg st = (Inr (Some eid), st1)"
  shows "cached_experiment_id st1 = Some eid"
  using assms
  by (auto simp: get_or_create_experiment_id_def Let_def
      split: if_splits prod.splits sum.splits list.splits)

lemma pipeline_resolution_caches:
  assumes "get_pipeline_id env cfg st = (Inr (Some pid), st1)"
  shows "cached_pipeline_id st1 = Some pid \<and> pid \<noteq> []"
  using assms
  by (auto simp: get_pipeline_id_def truthy_str_def dest: find_pipeline_truthy
      split: if_splits prod.splits sum.splits option.splits)

text \<open>
  C2. Once a resolution of the experiment has returned a non-empty id and a resolution
  of the pipeline has returned an id, each id is in its cache slot, and every later
  resolution, in any state whose slot still holds that id, with any answers of the API,
  returns the same id and leaves the state as it was: it sends no request.
\<close>

theorem resolution_is_cached_after_success:
  assumes "get_or_create_experiment_id env cfg st = (Inr (Some eid), st1)" and "eid \<noteq> []"
    and "get_pipeline_id env cfg st' = (Inr (Some pid), st1')"
  shows "cached_experiment_id st1 = Some eid \<and> cached_pipeline_id st1' = Some pid
       \<and> get_or_create_experiment_id env2 cfg2 st1 = (Inr (Some eid), st1)
       \<and> get_pipeline_id env2 cfg2 st1' = (Inr (Some pid), st1')
       \<and> (\<forall>st2. cached_experiment_id st2 = Some eid \<longrightarrow>
             get_or_create_experiment_id env2 cfg2 st2 = (Inr (Some eid), st2)
             \<and> requests (snd (get_or_create_experiment_id env2 cfg2 st2)) = requests st2)
       \<and> (\<forall>st2. cached_pipeline_id st2 = Some pid \<longrightarrow>
             get_pipeline_id env2 cfg2 st2 = (Inr (Some pid), st2)
             \<and> requests (snd (get_pipeline_id env2 cfg2 st2)) = requests st2)"
proof -
  note e = experiment_resolution_caches [OF assms(1)]
  note p = pipeline_resolution_caches [OF assms(3)]
  from p have pc: "cached_pipeline_id st1' = Some pid" and pn: "pid \<noteq> []" by simp_all
  have he: "get_or_create_experiment_id env2 cfg2 st2 = (Inr (Some eid), st2)"
    if "cached_experiment_id st2 = Some eid" for st2
    using that assms(2) by (rule experiment_cache_hit)
  have hp: "get_pipeline_id env2 cfg2 st2 = (Inr (Some pid), st2)"
    if "cached_pipeline_id st2 = Some pid" for st2
    using that pn by (rule pipeline_cache_hit)
  from e pc he hp show ?thesis by simp
qed

theorem resolution_is_cached_after_success_witness:
  "''exp-1'' \<noteq> []
   \<and> fst (get_or_create_experiment_id env_found cfg0 st0) = Inr (Some ''exp-1'')
   \<and> get_or_create_experiment_id env_found cfg0 (snd (get_or_create_experiment_id env_found cfg0 st0))
       = (Inr (Some ''exp-1''), snd (get_or_create_experiment_id env_found cfg0 st0))
   \<and> fst (get_pipeline_id env_found cfg0 st0) = Inr (Some ''pipe-1'')
   \<and> get_pipeline_id env_found cfg0 (snd (get_pipeline_id env_found cfg0 st0))
       = (Inr (Some ''pipe-1''), snd (get_pipeline_id env_found cfg0 st0))"
proof -
  let ?E = "get_or_create_experiment_id env_found cfg0 st0"
  let ?P = "get_pipeline_id env_found cfg0 st0"
  let ?KE = "kfp_request env_found cfg0 ''GET'' ''/apis/v2beta1/experiments''
              (experiment_params env_found cfg0) NoBody None st0"
  let ?KP = "kfp_request env_found cfg0 ''GET'' ''/apis/v2beta1/pipelines''
              [(''namespace'', Some (KFP_NAMESPACE cfg0)), (''page_size'', Some ''200'')]
              NoBody None st0"
  have ke: "?KE = (Inr json_found, snd ?KE)"
    by (rule prod_eqI) (simp_all add: kfp_request_env_found)
  have kp: "?KP = (Inr json_found, snd ?KP)"
    by (rule prod_eqI) (simp_all add: kfp_request_env_found)
  have fe: "fst ?E = Inr (Some ''exp-1'')"
    unfolding get_or_create_experiment_id_def
    by (subst ke) (simp add: st0_def truthy_str_def json_found_def dict_get_def)
  have fp: "fst ?P = Inr (Some ''pipe-1'')"
    unfolding get_pipeline_id_def
    by (subst kp)
       (simp add: st0_def truthy_str_def json_found_def dict_get_def cfg0_def or_str_def Let_def)
  have re: "?E = (Inr (Some ''exp-1''), snd ?E)"
    by (rule prod_eqI) (simp_all add: fe)
  have rp: "?P = (Inr (Some ''pipe-1''), snd ?P)"
    by (rule prod_eqI) (simp_all add: fp)
  have n: "''exp-1'' \<noteq> []" by simp
  from resolution_is_cached_after_success [OF re n rp, of env_found cfg0] fe fp n
  show ?thesis by simp
qed

end
